theory Spec2Isabelle
  imports Complex_Main "HOL-Library.AList"
begin

section \<open>Python values used by \<open>data.py\<close>\<close>

text \<open>
  The module \<open>data.py\<close> is glue code around the operating system and four libraries.
  Strings are lists of characters (code points below 256), a Python \<open>dict\<close> is an
  association list that keeps insertion order (\<open>AList.update\<close> replaces the value of a
  key in place and appends a new key at the end, as Python does), and every exception the
  code can raise is a value of the type \<open>error\<close>.
\<close>

datatype error = IndexError | KeyError | OSError | LibraryError

type_synonym ('k, 'v) dict = "('k \<times> 'v) list"

definition py_clamp :: "int \<Rightarrow> nat \<Rightarrow> nat" where
  \<comment> \<open>the position a slice bound \<open>i\<close> denotes in a sequence of length \<open>n\<close>\<close>
  "py_clamp i n = (if i < 0 then nat (max 0 (int n + i)) else min n (nat i))"

definition slice_to :: "'a list \<Rightarrow> int \<Rightarrow> 'a list" where
  \<comment> \<open>\<open>xs[:i]\<close>\<close>
  "slice_to xs i = take (py_clamp i (length xs)) xs"

definition slice_from :: "'a list \<Rightarrow> int \<Rightarrow> 'a list" where
  \<comment> \<open>\<open>xs[i:]\<close>\<close>
  "slice_from xs i = drop (py_clamp i (length xs)) xs"

definition py_index :: "'a list \<Rightarrow> int \<Rightarrow> error + 'a" where
  \<comment> \<open>\<open>xs[i]\<close>: a negative index counts from the end, out of range raises\<close>
  "py_index xs i =
     (if 0 \<le> i \<and> i < int (length xs) then Inr (xs ! nat i)
      else if i < 0 \<and> - int (length xs) \<le> i then Inr (xs ! nat (int (length xs) + i))
      else Inl IndexError)"

fun find_from :: "char \<Rightarrow> string \<Rightarrow> int \<Rightarrow> int" where
  "find_from c [] i = - 1"
| "find_from c (x # xs) i = (if x = c then i else find_from c xs (i + 1))"

definition py_find :: "string \<Rightarrow> char \<Rightarrow> int" where
  \<comment> \<open>\<open>s.find(c)\<close>: the index of the first occurrence, or \<open>-1\<close>\<close>
  "py_find s c = find_from c s 0"

definition endswith :: "string \<Rightarrow> string \<Rightarrow> bool" where
  \<comment> \<open>\<open>s.endswith(suf)\<close>\<close>
  "endswith s suf = (length suf \<le> length s \<and> drop (length s - length suf) s = suf)"

definition rstrip_nl :: "string \<Rightarrow> string" where
  \<comment> \<open>\<open>s.rstrip('\n')\<close>\<close>
  "rstrip_nl s = rev (dropWhile (\<lambda>c. c = CHR 0x0A) (rev s))"

definition before_dot :: "string \<Rightarrow> string" where
  \<comment> \<open>\<open>s.split('.')[0]\<close>\<close>
  "before_dot s = takeWhile (\<lambda>c. c \<noteq> CHR ''.'') s"

definition isspace :: "char \<Rightarrow> bool" where
  \<comment> \<open>\<open>str.isspace\<close> on the code points below 256\<close>
  "isspace c = (let n = (of_char c :: nat)
     in (9 \<le> n \<and> n \<le> 13) \<or> (28 \<le> n \<and> n \<le> 32) \<or> n = 133 \<or> n = 160)"

fun split_acc :: "string \<Rightarrow> string \<Rightarrow> string list" where
  "split_acc w [] = (if w = [] then [] else [w])"
| "split_acc w (c # cs) =
     (if isspace c then (if w = [] then split_acc [] cs else w # split_acc [] cs)
      else split_acc (w @ [c]) cs)"

definition py_split :: "string \<Rightarrow> string list" where
  \<comment> \<open>\<open>s.split()\<close>: the maximal runs of characters that are not whitespace\<close>
  "py_split s = split_acc [] s"

definition path_join :: "string \<Rightarrow> string \<Rightarrow> string" where
  \<comment> \<open>\<open>os.path.join(a, b)\<close> on a POSIX system\<close>
  "path_join a b =
     (if b \<noteq> [] \<and> hd b = CHR ''/'' then b
      else if a = [] \<or> last a = CHR ''/'' then a @ b
      else a @ ''/'' @ b)"

section \<open>The class \<open>AudioPrep\<close>\<close>

text \<open>
  The fields of an instance. \<open>phon_dict\<close> is only ever looked up by key, so it is a map;
  \<open>files\<close> maps an author to the list of the chapters. A format that is \<open>None\<close> in the
  source is \<open>None\<close> here.
\<close>

record 'p audio_prep =
  path :: string
  pre_emphasis :: real
  frame_size :: real
  frame_stride :: real
  NFFT :: int
  nfilt :: int
  num_ceps :: int
  cep_lifter :: int
  origin_format :: "string option"
  target_format :: "string option"
  dict_path :: "string option"
  phonemes_path :: "string option"
  phon_dict :: "string \<rightharpoonup> 'p list"
  files :: "(string, string list) dict"
  index :: int
  author_indexes :: "string list"
  batch_count :: int

subsection \<open>\<open>_get_phoneme_transcription\<close>\<close>

text \<open>The inner loop over the words: the flag \<open>valid\<close> and the phrase built so far.\<close>

fun words_loop :: "(string \<rightharpoonup> 'p list) \<Rightarrow> string list \<Rightarrow> 'p list \<Rightarrow> bool \<times> 'p list" where
  "words_loop d [] phrase = (True, phrase)"
| "words_loop d (w # ws) phrase =
     (case d w of
        Some ps \<Rightarrow> words_loop d ws (phrase @ ps)
      | None \<Rightarrow> (False, phrase))"

definition decode_one ::
  "'p audio_prep \<Rightarrow> string \<times> string \<Rightarrow> (string, 'p list) dict \<Rightarrow> (string, 'p list) dict" where
  "decode_one s kt out =
     (case words_loop (phon_dict s) (py_split (snd kt)) [] of
        (valid, phrase) \<Rightarrow>
          if valid then AList.update (fst kt) (slice_to phrase (- 1)) out else out)"

definition get_phoneme_transcription ::
  "'p audio_prep \<Rightarrow> (string, string) dict \<Rightarrow> (string, 'p list) dict" where
  "get_phoneme_transcription s transcriptions = fold (decode_one s) transcriptions []"


section \<open>The world outside the module\<close>

text \<open>
  What \<open>os\<close>, \<open>open\<close> and \<open>soundfile\<close> answer: \<open>listdir\<close> raises on a path that is not
  a readable directory, \<open>os.path.isdir\<close> never raises, iterating over \<open>open(p)\<close> gives
  the lines with their line ends, \<open>sf.read\<close> gives the samples and the sample rate.
  Nothing is assumed about the answers.
\<close>

record 'a fsys =
  listdir :: "string \<Rightarrow> error + string list"
  isdir :: "string \<Rightarrow> bool"
  readlines :: "string \<Rightarrow> error + string list"
  sf_read :: "string \<Rightarrow> error + ('a \<times> int)"

text \<open>
  The libraries: \<open>beep.get_phoneme_dict(path, phonemes_index)\<close>, where an argument that
  the call leaves out is \<open>None\<close>; \<open>python_speech_features.mfcc(audio, samplerate)\<close>;
  \<open>minmax_scale(m, feature_range=(-1,1), axis=1)\<close>; and
  \<open>AudioSegment.from_file(src, src_format).export(dst, format=dst_format)\<close>, which
  changes the file system. Each may raise.
\<close>

record ('a, 'm, 'p) env =
  get_phoneme_dict :: "string option \<Rightarrow> string option \<Rightarrow> error + (string \<rightharpoonup> 'p list)"
  mfcc :: "'a \<Rightarrow> int \<Rightarrow> error + 'm"
  minmax_scale :: "'m \<Rightarrow> error + 'm"
  export_audio :: "'a fsys \<Rightarrow> string \<Rightarrow> string \<Rightarrow> string \<Rightarrow> string \<Rightarrow> error + 'a fsys"

text \<open>The mutable state a method call works on: the instance and the file system.\<close>

record ('a, 'p) sys =
  self :: "'p audio_prep"
  disk :: "'a fsys"

text \<open>
  A method returns its value or the exception it raised, the state it leaves behind
  (also when it raised), and the list of the directories on which it invoked
  \<open>_convert_audios\<close>, in the order of the calls.
\<close>

type_synonym ('x, 'a, 'p) run = "(error + 'x) \<times> ('a, 'p) sys \<times> string list"

subsection \<open>Constants\<close>

definition PRE_EMPHASIS :: real where "PRE_EMPHASIS = 97 / 100"
definition FRAME_SIZE :: real where "FRAME_SIZE = 25 / 1000"
definition FRAME_STRIDE :: real where "FRAME_STRIDE = 1 / 100"
definition nfft :: int where "nfft = 512"
definition NFILT :: int where "NFILT = 40"
definition NUM_CEPS :: int where "NUM_CEPS = 12"
definition CEP_LIFTER :: int where "CEP_LIFTER = 22"
definition AUDIO_ORIGIN_FORMAT :: string where "AUDIO_ORIGIN_FORMAT = ''flac''"
definition AUDIO_TARGET_FORMAT :: string where "AUDIO_TARGET_FORMAT = ''wav''"

subsection \<open>\<open>_get_files\<close> and the constructor\<close>

definition subdirs :: "'a fsys \<Rightarrow> string \<Rightarrow> error + string list" where
  \<comment> \<open>\<open>[d for d in listdir(p) if os.path.isdir(os.path.join(p, d))]\<close>\<close>
  "subdirs d p =
     (case listdir d p of
        Inl e \<Rightarrow> Inl e
      | Inr names \<Rightarrow> Inr (filter (\<lambda>n. isdir d (path_join p n)) names))"

fun authors_loop ::
  "'a fsys \<Rightarrow> string \<Rightarrow> string list \<Rightarrow> (string, string list) dict
     \<Rightarrow> error + (string, string list) dict" where
  "authors_loop d p [] fs = Inr fs"
| "authors_loop d p (author # rest) fs =
     (case subdirs d (path_join p author) of
        Inl e \<Rightarrow> Inl e
      | Inr audio_folders \<Rightarrow> authors_loop d p rest (AList.update author audio_folders fs))"

definition get_files :: "'a fsys \<Rightarrow> 'p audio_prep \<Rightarrow> error + 'p audio_prep" where
  "get_files d s =
     (case subdirs d (path s) of
        Inl e \<Rightarrow> Inl e
      | Inr author_folders \<Rightarrow>
          (case authors_loop d (path s) author_folders [] of
             Inl e \<Rightarrow> Inl e
           | Inr fs \<Rightarrow> Inr (s\<lparr>files := fs, index := - 1, author_indexes := map fst fs\<rparr>)))"

definition default_to :: "'v option \<Rightarrow> 'v \<Rightarrow> 'v" where
  \<comment> \<open>\<open>x if x is not None else d\<close>\<close>
  "default_to x d = (case x of None \<Rightarrow> d | Some v \<Rightarrow> v)"

definition init ::
  "('a, 'm, 'p) env \<Rightarrow> 'a fsys \<Rightarrow> string \<Rightarrow> real option \<Rightarrow> real option \<Rightarrow> real option
     \<Rightarrow> int option \<Rightarrow> int option \<Rightarrow> int option \<Rightarrow> int option \<Rightarrow> string option \<Rightarrow> string option
     \<Rightarrow> error + 'p audio_prep" where
  "init ev d p pre_emph fsize fstride n_fft n_filt n_ceps lifter dpath ppath =
     (case (if dpath = None
            then (if ppath = None then get_phoneme_dict ev None None
                  else get_phoneme_dict ev None ppath)
            else if ppath \<noteq> None then get_phoneme_dict ev dpath ppath
            else get_phoneme_dict ev dpath None) of
        Inl e \<Rightarrow> Inl e
      | Inr pd \<Rightarrow>
          (case get_files d
                  \<lparr>path = p,
                   pre_emphasis = default_to pre_emph PRE_EMPHASIS,
                   frame_size = default_to fsize FRAME_SIZE,
                   frame_stride = default_to fstride FRAME_STRIDE,
                   NFFT = default_to n_fft nfft,
                   nfilt = default_to n_filt NFILT,
                   num_ceps = default_to n_ceps NUM_CEPS,
                   cep_lifter = default_to lifter CEP_LIFTER,
                   origin_format = None,
                   target_format = None,
                   dict_path = dpath,
                   phonemes_path = ppath,
                   phon_dict = pd,
                   files = [],
                   index = - 1,
                   author_indexes = [],
                   batch_count = 0\<rparr> of
             Inl e \<Rightarrow> Inl e
           | Inr s \<Rightarrow> Inr (s\<lparr>batch_count := int (length (files s))\<rparr>)))"

subsection \<open>\<open>_get_mfcc\<close> and \<open>_scale_data\<close>\<close>

fun mfcc_loop ::
  "('a, 'm, 'p) env \<Rightarrow> (string, 'a \<times> int) dict \<Rightarrow> string list \<Rightarrow> 'm list
     \<Rightarrow> error + (string list \<times> 'm list)" where
  "mfcc_loop ev [] keys mfccs = Inr (keys, mfccs)"
| "mfcc_loop ev (kv # rest) keys mfccs =
     (case mfcc ev (fst (snd kv)) (snd (snd kv)) of
        Inl e \<Rightarrow> Inl e
      | Inr audio_mfcc \<Rightarrow> mfcc_loop ev rest (keys @ [fst kv]) (mfccs @ [audio_mfcc]))"

definition get_mfcc ::
  "('a, 'm, 'p) env \<Rightarrow> 'p audio_prep \<Rightarrow> (string, 'a \<times> int) dict
     \<Rightarrow> error + (string list \<times> 'm list)" where
  "get_mfcc ev s audios = mfcc_loop ev audios [] []"

fun scale_loop :: "('a, 'm, 'p) env \<Rightarrow> 'm list \<Rightarrow> 'm list \<Rightarrow> error + 'm list" where
  "scale_loop ev [] audios = Inr audios"
| "scale_loop ev (m # ms) audios =
     (case minmax_scale ev m of
        Inl e \<Rightarrow> Inl e
      | Inr scaled_audio \<Rightarrow> scale_loop ev ms (audios @ [scaled_audio]))"

text \<open>\<open>for i in range(len(keys)): scaled_mfcc[keys[i]] = audios[i]\<close>\<close>

fun key_loop :: "string list \<Rightarrow> 'm list \<Rightarrow> (string, 'm) dict \<Rightarrow> error + (string, 'm) dict" where
  "key_loop [] audios scaled_mfcc = Inr scaled_mfcc"
| "key_loop (k # ks) [] scaled_mfcc = Inl IndexError"
| "key_loop (k # ks) (a # audios) scaled_mfcc = key_loop ks audios (AList.update k a scaled_mfcc)"

definition scale_data ::
  "('a, 'm, 'p) env \<Rightarrow> 'p audio_prep \<Rightarrow> string list \<Rightarrow> 'm list \<Rightarrow> error + (string, 'm) dict" where
  "scale_data ev s keys mfccs =
     (case scale_loop ev mfccs [] of
        Inl e \<Rightarrow> Inl e
      | Inr audios \<Rightarrow> key_loop keys audios [])"


subsection \<open>\<open>_convert_audios\<close> and \<open>convert_audios\<close>\<close>

fun export_loop ::
  "('a, 'm, 'p) env \<Rightarrow> string \<Rightarrow> string \<Rightarrow> string \<Rightarrow> string list \<Rightarrow> ('a, 'p) sys
     \<Rightarrow> (error + unit) \<times> ('a, 'p) sys" where
  "export_loop ev p ofmt tfmt [] c = (Inr (), c)"
| "export_loop ev p ofmt tfmt (audio_part # rest) c =
     (case export_audio ev (disk c) (path_join p audio_part) ofmt
             (before_dot (path_join p audio_part) @ ''.'' @ tfmt) tfmt of
        Inl e \<Rightarrow> (Inl e, c)
      | Inr d \<Rightarrow> export_loop ev p ofmt tfmt rest (c\<lparr>disk := d\<rparr>))"

definition priv_convert_audios ::
  "('a, 'm, 'p) env \<Rightarrow> string \<Rightarrow> ('a, 'p) sys \<Rightarrow> (error + unit) \<times> ('a, 'p) sys" where
  \<comment> \<open>the method \<open>_convert_audios\<close>\<close>
  "priv_convert_audios ev p c =
     (let ofmt = default_to (origin_format (self c)) AUDIO_ORIGIN_FORMAT;
          tfmt = default_to (target_format (self c)) AUDIO_TARGET_FORMAT;
          c1 = c\<lparr>self := (self c)\<lparr>origin_format := Some ofmt, target_format := Some tfmt\<rparr>\<rparr>
      in case listdir (disk c1) p of
           Inl e \<Rightarrow> (Inl e, c1)
         | Inr names \<Rightarrow>
             export_loop ev p ofmt tfmt (filter (\<lambda>d. endswith d (''.'' @ ofmt)) names) c1)"

definition convert_audios ::
  "string option \<Rightarrow> string option \<Rightarrow> 'p audio_prep \<Rightarrow> 'p audio_prep" where
  \<comment> \<open>the public method \<open>convert_audios\<close>\<close>
  "convert_audios ofmt tfmt s =
     s\<lparr>origin_format := Some (default_to ofmt AUDIO_ORIGIN_FORMAT),
       target_format := Some (default_to tfmt AUDIO_TARGET_FORMAT)\<rparr>"

subsection \<open>\<open>get_data\<close>\<close>

definition parse_line :: "string \<Rightarrow> (string, string) dict \<Rightarrow> (string, string) dict" where
  \<comment> \<open>\<open>split = line.find(' '); transcripts[line[:split]] = line[split:]\<close>\<close>
  "parse_line line transcripts =
     (let split = py_find line CHR '' ''
      in AList.update (slice_to line split) (slice_from line split) transcripts)"

fun read_audios ::
  "'a fsys \<Rightarrow> string \<Rightarrow> string list \<Rightarrow> (string, 'a \<times> int) dict
     \<Rightarrow> error + (string, 'a \<times> int) dict" where
  "read_audios d curr_path [] audios = Inr audios"
| "read_audios d curr_path (audio_part # rest) audios =
     (case sf_read d (path_join curr_path audio_part) of
        Inl e \<Rightarrow> Inl e
      | Inr v \<Rightarrow> read_audios d curr_path rest (AList.update (before_dot audio_part) v audios))"

text \<open>
  Lines 211 to 219 for one chapter directory: the audio files of the requested format
  are listed; only when there is none, the target format is set (if still unset), the
  directory is converted and listed again. Then every listed file is read.
\<close>

definition chapter_audios ::
  "('a, 'm, 'p) env \<Rightarrow> string \<Rightarrow> string \<Rightarrow> (string, 'a \<times> int) dict \<Rightarrow> ('a, 'p) sys
     \<Rightarrow> ((string, 'a \<times> int) dict, 'a, 'p) run" where
  "chapter_audios ev fmt curr_path audios c =
     (case listdir (disk c) curr_path of
        Inl e \<Rightarrow> (Inl e, c, [])
      | Inr names \<Rightarrow>
          (let audio_parts = filter (\<lambda>d. endswith d (''.'' @ fmt)) names
           in if audio_parts = [] then
                (let c1 = (if target_format (self c) = None
                           then c\<lparr>self := (self c)\<lparr>target_format := Some fmt\<rparr>\<rparr> else c)
                 in case priv_convert_audios ev curr_path c1 of
                      (Inl e, c2) \<Rightarrow> (Inl e, c2, [curr_path])
                    | (Inr u, c2) \<Rightarrow>
                        (case listdir (disk c2) curr_path of
                           Inl e \<Rightarrow> (Inl e, c2, [curr_path])
                         | Inr names2 \<Rightarrow>
                             (case read_audios (disk c2) curr_path
                                     (filter (\<lambda>d. endswith d (''.'' @ fmt)) names2) audios of
                                Inl e \<Rightarrow> (Inl e, c2, [curr_path])
                              | Inr audios' \<Rightarrow> (Inr audios', c2, [curr_path]))))
              else
                (case read_audios (disk c) curr_path audio_parts audios of
                   Inl e \<Rightarrow> (Inl e, c, [])
                 | Inr audios' \<Rightarrow> (Inr audios', c, []))))"

text \<open>
  One round of the loop over the chapters of the author (lines 201 to 219): the
  transcripts and the audios gathered so far go in and come out.
\<close>

definition process_chapter ::
  "('a, 'm, 'p) env \<Rightarrow> string \<Rightarrow> string \<Rightarrow> string
     \<Rightarrow> (string, string) dict \<times> (string, 'a \<times> int) dict \<Rightarrow> ('a, 'p) sys
     \<Rightarrow> ((string, string) dict \<times> (string, 'a \<times> int) dict, 'a, 'p) run" where
  "process_chapter ev fmt author_path audio acc c =
     (let curr_path = path_join author_path audio
      in case listdir (disk c) curr_path of
           Inl e \<Rightarrow> (Inl e, c, [])
         | Inr names \<Rightarrow>
             (case py_index (filter (\<lambda>f. endswith f ''.txt'') names) 0 of
                Inl e \<Rightarrow> (Inl e, c, [])
              | Inr transcript_file \<Rightarrow>
                  (case readlines (disk c) (path_join curr_path transcript_file) of
                     Inl e \<Rightarrow> (Inl e, c, [])
                   | Inr raw \<Rightarrow>
                       (case chapter_audios ev fmt curr_path (snd acc) c of
                          (Inl e, c1, l) \<Rightarrow> (Inl e, c1, l)
                        | (Inr audios, c1, l) \<Rightarrow>
                            (Inr (fold parse_line (map rstrip_nl raw) (fst acc), audios),
                             c1, l)))))"

fun chapters_loop ::
  "('a, 'm, 'p) env \<Rightarrow> string \<Rightarrow> string \<Rightarrow> string list
     \<Rightarrow> (string, string) dict \<times> (string, 'a \<times> int) dict \<Rightarrow> ('a, 'p) sys
     \<Rightarrow> ((string, string) dict \<times> (string, 'a \<times> int) dict, 'a, 'p) run" where
  "chapters_loop ev fmt author_path [] acc c = (Inr acc, c, [])"
| "chapters_loop ev fmt author_path (audio # rest) acc c =
     (case process_chapter ev fmt author_path audio acc c of
        (Inl e, c1, l1) \<Rightarrow> (Inl e, c1, l1)
      | (Inr acc1, c1, l1) \<Rightarrow>
          (case chapters_loop ev fmt author_path rest acc1 c1 of
             (r, c2, l2) \<Rightarrow> (r, c2, l1 @ l2)))"

text \<open>Lines 197 to 219 for a given author.\<close>

definition author_gather ::
  "('a, 'm, 'p) env \<Rightarrow> string \<Rightarrow> string \<Rightarrow> ('a, 'p) sys
     \<Rightarrow> ((string, string) dict \<times> (string, 'a \<times> int) dict, 'a, 'p) run" where
  "author_gather ev fmt author c =
     (let author_path = path_join (path (self c)) author
      in case map_of (files (self c)) author of
           None \<Rightarrow> (Inl KeyError, c, [])
         | Some chapters \<Rightarrow> chapters_loop ev fmt author_path chapters ([], []) c)"

definition advance :: "('a, 'p) sys \<Rightarrow> ('a, 'p) sys" where
  \<comment> \<open>\<open>self._index += 1\<close>\<close>
  "advance c = c\<lparr>self := (self c)\<lparr>index := index (self c) + 1\<rparr>\<rparr>"

text \<open>Lines 194 to 219: the cursor moves first, then the author at the cursor is served.\<close>

definition gather ::
  "('a, 'm, 'p) env \<Rightarrow> string \<Rightarrow> ('a, 'p) sys
     \<Rightarrow> ((string, string) dict \<times> (string, 'a \<times> int) dict, 'a, 'p) run" where
  "gather ev fmt c0 =
     (let c = advance c0
      in case py_index (author_indexes (self c)) (index (self c)) of
           Inl e \<Rightarrow> (Inl e, c, [])
         | Inr author \<Rightarrow> author_gather ev fmt author c)"

text \<open>Lines 221 and 222: the features of every audio, scaled, by key.\<close>

definition scaled_features ::
  "('a, 'm, 'p) env \<Rightarrow> 'p audio_prep \<Rightarrow> (string, 'a \<times> int) dict \<Rightarrow> error + (string, 'm) dict" where
  "scaled_features ev s audios =
     (case get_mfcc ev s audios of
        Inl e \<Rightarrow> Inl e
      | Inr km \<Rightarrow> scale_data ev s (fst km) (snd km))"

text \<open>\<open>for key, transcript in phon_transcripts.items(): result[key] = (transcript, scaled_mfcc[key])\<close>\<close>

fun join_loop ::
  "(string, 'p list) dict \<Rightarrow> (string, 'm) dict \<Rightarrow> (string, 'p list \<times> 'm) dict
     \<Rightarrow> error + (string, 'p list \<times> 'm) dict" where
  "join_loop [] scaled_mfcc result = Inr result"
| "join_loop (kt # rest) scaled_mfcc result =
     (case map_of scaled_mfcc (fst kt) of
        None \<Rightarrow> Inl KeyError
      | Some m \<Rightarrow> join_loop rest scaled_mfcc (AList.update (fst kt) (snd kt, m) result))"

text \<open>Lines 221 to 226: features, scaling, phonemes and the pairing by key.\<close>

definition pair_up ::
  "('a, 'm, 'p) env \<Rightarrow> 'p audio_prep \<Rightarrow> (string, string) dict \<Rightarrow> (string, 'a \<times> int) dict
     \<Rightarrow> error + (string, 'p list \<times> 'm) dict" where
  "pair_up ev s transcripts audios =
     (case scaled_features ev s audios of
        Inl e \<Rightarrow> Inl e
      | Inr scaled_mfcc \<Rightarrow>
          join_loop (get_phoneme_transcription s transcripts) scaled_mfcc [])"

definition wrap_around :: "('a, 'p) sys \<Rightarrow> ('a, 'p) sys" where
  \<comment> \<open>\<open>if self._index >= self._batch_count - 1: self._index = -1\<close>\<close>
  "wrap_around c =
     (if index (self c) \<ge> batch_count (self c) - 1
      then c\<lparr>self := (self c)\<lparr>index := - 1\<rparr>\<rparr> else c)"

definition get_data ::
  "('a, 'm, 'p) env \<Rightarrow> string \<Rightarrow> ('a, 'p) sys \<Rightarrow> ((string, 'p list \<times> 'm) dict, 'a, 'p) run" where
  "get_data ev fmt c0 =
     (case gather ev fmt c0 of
        (Inl e, c1, l) \<Rightarrow> (Inl e, c1, l)
      | (Inr ta, c1, l) \<Rightarrow>
          (case pair_up ev (self c1) (fst ta) (snd ta) of
             Inl e \<Rightarrow> (Inl e, c1, l)
           | Inr result \<Rightarrow> (Inr result, wrap_around c1, l)))"


text \<open>What a call leaves alone in the instance: everything but the cursor and the two formats.\<close>

definition forget_formats :: "'p audio_prep \<Rightarrow> 'p audio_prep" where
  "forget_formats s = s\<lparr>origin_format := None, target_format := None\<rparr>"

section \<open>Small corpora\<close>

text \<open>
  A file system given by three tables (the directories with their entries, the text files
  with their lines, the audio files with samples and rate), a converter that copies the
  samples to the new file and enters it in its directory, and stand-ins for the feature
  libraries. Samples and feature matrices are numbers here.
\<close>

definition mk_disk ::
  "(string \<times> string list) list \<Rightarrow> (string \<times> string list) list \<Rightarrow> (string \<times> nat \<times> int) list
     \<Rightarrow> nat fsys" where
  "mk_disk dirs texts sounds =
     \<lparr>listdir = (\<lambda>p. case map_of dirs p of None \<Rightarrow> Inl OSError | Some ns \<Rightarrow> Inr ns),
      isdir = (\<lambda>p. map_of dirs p \<noteq> None),
      readlines = (\<lambda>p. case map_of texts p of None \<Rightarrow> Inl OSError | Some ls \<Rightarrow> Inr ls),
      sf_read = (\<lambda>p. case map_of sounds p of None \<Rightarrow> Inl OSError | Some v \<Rightarrow> Inr v)\<rparr>"

definition dir_of :: "string \<Rightarrow> string" where
  "dir_of p = rev (drop 1 (dropWhile (\<lambda>c. c \<noteq> CHR ''/'') (rev p)))"

definition base_of :: "string \<Rightarrow> string" where
  "base_of p = rev (takeWhile (\<lambda>c. c \<noteq> CHR ''/'') (rev p))"

definition ex_export :: "nat fsys \<Rightarrow> string \<Rightarrow> string \<Rightarrow> string \<Rightarrow> string \<Rightarrow> error + nat fsys" where
  "ex_export d src ofmt dst tfmt =
     (case sf_read d src of
        Inl e \<Rightarrow> Inl e
      | Inr v \<Rightarrow>
          Inr (d\<lparr>listdir := (\<lambda>p. if p = dir_of dst
                               then (case listdir d p of Inl e \<Rightarrow> Inl e
                                     | Inr ns \<Rightarrow> Inr (ns @ [base_of dst]))
                               else listdir d p),
                 sf_read := (\<lambda>p. if p = dst then Inr v else sf_read d p)\<rparr>))"

definition ex_dict :: "string \<rightharpoonup> string list" where
  "ex_dict = [''cat'' \<mapsto> [''K'', ''AE'', ''T'', ''sil''], ''a'' \<mapsto> [''sil'']]"

definition ex_env :: "(nat, nat, string) env" where
  "ex_env = \<lparr>get_phoneme_dict = (\<lambda>dp pp. Inr ex_dict),
             mfcc = (\<lambda>a r. Inr (a + 100)),
             minmax_scale = (\<lambda>m. Inr (m + 1000)),
             export_audio = ex_export\<rparr>"

definition ex_init :: "string \<Rightarrow> nat fsys \<Rightarrow> error + string audio_prep" where
  \<comment> \<open>\<open>AudioPrep(p)\<close>\<close>
  "ex_init p d = init ex_env d p None None None None None None None None None"

text \<open>Three authors with one chapter each, all audio already in the format asked for.\<close>

definition ex_disk :: "nat fsys" where
  "ex_disk = mk_disk
     [(''r'', [''a1'', ''a2'', ''a3'', ''README'']),
      (''r/a1'', [''c1'']), (''r/a2'', [''c1'']), (''r/a3'', [''c1'']),
      (''r/a1/c1'', [''t.txt'', ''u1.wav'']),
      (''r/a2/c1'', [''t.txt'', ''u2.wav'']),
      (''r/a3/c1'', [''t.txt'', ''u3.wav''])]
     [(''r/a1/c1/t.txt'', [''u1 cat'' @ [CHR 0x0A]]),
      (''r/a2/c1/t.txt'', [''u2 cat a'' @ [CHR 0x0A], ''x2 the cat'']),
      (''r/a3/c1/t.txt'', [''u3 a'' @ [CHR 0x0A]])]
     [(''r/a1/c1/u1.wav'', (1, 16000)), (''r/a2/c1/u2.wav'', (2, 16000)),
      (''r/a3/c1/u3.wav'', (3, 16000))]"

text \<open>One author with one chapter, whose entries, text files and audio files are given.\<close>

definition chapter_disk ::
  "string list \<Rightarrow> (string \<times> string list) list \<Rightarrow> (string \<times> nat \<times> int) list \<Rightarrow> nat fsys" where
  "chapter_disk names texts sounds =
     mk_disk [(''r'', [''a1'']), (''r/a1'', [''c1'']), (''r/a1/c1'', names)] texts sounds"

definition ex_prep :: "string audio_prep" where
  \<comment> \<open>what \<open>AudioPrep(''r'')\<close> constructs on a \<open>chapter_disk\<close>\<close>
  "ex_prep =
     \<lparr>path = ''r'', pre_emphasis = PRE_EMPHASIS, frame_size = FRAME_SIZE,
      frame_stride = FRAME_STRIDE, NFFT = nfft, nfilt = NFILT, num_ceps = NUM_CEPS,
      cep_lifter = CEP_LIFTER, origin_format = None, target_format = None,
      dict_path = None, phonemes_path = None, phon_dict = ex_dict,
      files = [(''a1'', [''c1''])], index = - 1, author_indexes = [''a1''],
      batch_count = 1\<rparr>"


definition ex_prep3 :: "string audio_prep" where
  \<comment> \<open>what \<open>AudioPrep(''r'')\<close> constructs on \<open>ex_disk\<close>\<close>
  "ex_prep3 =
     ex_prep\<lparr>files := [(''a1'', [''c1'']), (''a2'', [''c1'']), (''a3'', [''c1''])],
             author_indexes := [''a1'', ''a2'', ''a3''], batch_count := 3\<rparr>"

text \<open>Chapters with only \<open>flac\<close> audio, with two transcripts, with a transcript line that has
  no audio, with a transcript of one word whose only phoneme is the end marker, and a root
  directory without any subdirectory.\<close>

definition flac_disk :: "nat fsys" where
  "flac_disk = chapter_disk [''t.txt'', ''u1.flac'']
     [(''r/a1/c1/t.txt'', [''u1 cat''])] [(''r/a1/c1/u1.flac'', (1, 16000))]"

definition two_txt_disk :: "nat fsys" where
  "two_txt_disk = chapter_disk [''t1.txt'', ''t2.txt'', ''u1.wav'']
     [(''r/a1/c1/t1.txt'', [''u1 cat'']), (''r/a1/c1/t2.txt'', [''u1 a a''])]
     [(''r/a1/c1/u1.wav'', (1, 16000))]"

definition no_txt_disk :: "nat fsys" where
  "no_txt_disk = chapter_disk [''u1.wav''] [] [(''r/a1/c1/u1.wav'', (1, 16000))]"

definition orphan_disk :: "nat fsys" where
  "orphan_disk = chapter_disk [''t.txt'', ''u1.wav'']
     [(''r/a1/c1/t.txt'', [''u1 cat'' @ [CHR 0x0A], ''u2 cat''])]
     [(''r/a1/c1/u1.wav'', (1, 16000))]"

definition silent_disk :: "nat fsys" where
  "silent_disk = chapter_disk [''t.txt'', ''u1.wav'']
     [(''r/a1/c1/t.txt'', [''u1 a''])] [(''r/a1/c1/u1.wav'', (1, 16000))]"

definition empty_root_disk :: "nat fsys" where
  "empty_root_disk = mk_disk [(''r'', [''README''])] [] []"

text \<open>
  The instance with other values in the seven MFCC fields, as the constructor would have
  stored them from other arguments; and the same change in a state.
\<close>

definition reconfigure ::
  "real \<times> real \<times> real \<times> int \<times> int \<times> int \<times> int \<Rightarrow> 'p audio_prep \<Rightarrow> 'p audio_prep" where
  "reconfigure q s =
     (case q of (pe, fz, fs, nf, nl, nc, cl) \<Rightarrow>
        s\<lparr>pre_emphasis := pe, frame_size := fz, frame_stride := fs, NFFT := nf,
          nfilt := nl, num_ceps := nc, cep_lifter := cl\<rparr>)"

definition reparam ::
  "real \<times> real \<times> real \<times> int \<times> int \<times> int \<times> int \<Rightarrow> ('a, 'p) sys \<Rightarrow> ('a, 'p) sys" where
  "reparam q c = c\<lparr>self := reconfigure q (self c)\<rparr>"

section \<open>The scaler of the Feature Normalizer\<close>

text \<open>
  Modelled from the spec: the rule of the Feature Normalizer is not in the sources, which
  only call \<open>sklearn.preprocessing.minmax_scale(m, feature_range=(-1,1), axis=1)\<close>.
  A feature matrix is a list of rows of reals (exact arithmetic, no rounding). Every row
  is scaled on its own: with \<open>lo\<close> and \<open>hi\<close> the least and the greatest value of the row,
  a value \<open>x\<close> becomes \<open>x * scale + offset\<close>, where \<open>scale = (1 - (-1)) / (hi - lo)\<close> and
  \<open>offset = -1 - lo * scale\<close>; this is the formula \<open>-1 + 2 * (x - lo) / (hi - lo)\<close> of
  section 4.5. For a row of equal values the divisor \<open>hi - lo = 0\<close> is replaced by 1, as
  the library documents for a zero range; this is what the code runs, and it is not the
  value 0 that section 4.5 asks for. A matrix without rows or with an empty row is
  refused by the library.
\<close>

definition handle_zeros_in_scale :: "real \<Rightarrow> real" where
  "handle_zeros_in_scale r = (if r = 0 then 1 else r)"

definition scale_row :: "real list \<Rightarrow> real list" where
  "scale_row xs =
     (let data_min = Min (set xs);
          data_max = Max (set xs);
          scale = (1 - (- 1)) / handle_zeros_in_scale (data_max - data_min);
          offset = - 1 - data_min * scale
      in map (\<lambda>x. x * scale + offset) xs)"

definition sk_minmax_scale :: "real list list \<Rightarrow> error + real list list" where
  "sk_minmax_scale m =
     (if m = [] \<or> [] \<in> set m then Inl LibraryError else Inr (map scale_row m))"

text \<open>The libraries of the small corpora, with this scaler and a feature matrix of two rows.\<close>

definition sk_env :: "(nat, real list list, string) env" where
  "sk_env = \<lparr>get_phoneme_dict = (\<lambda>dp pp. Inr ex_dict),
             mfcc = (\<lambda>a r. Inr [[5, 5, 5], [1, 2, 3]]),
             minmax_scale = sk_minmax_scale,
             export_audio = ex_export\<rparr>"

section \<open>Auxiliary facts\<close>

lemmas run_defs =
  get_data_def gather_def advance_def author_gather_def py_index_def process_chapter_def
  chapter_audios_def endswith_def path_join_def parse_line_def py_find_def slice_to_def
  slice_from_def py_clamp_def rstrip_nl_def before_dot_def pair_up_def scaled_features_def
  get_mfcc_def scale_data_def get_phoneme_transcription_def decode_one_def py_split_def
  isspace_def wrap_around_def ex_env_def mk_disk_def ex_dict_def Let_def
  priv_convert_audios_def default_to_def ex_export_def dir_of_def base_of_def
  AUDIO_ORIGIN_FORMAT_def AUDIO_TARGET_FORMAT_def

subsection \<open>Slices and tokens\<close>

lemma slice_to_minus_one: "slice_to xs (- 1) = butlast xs"
  by (simp add: slice_to_def py_clamp_def butlast_conv_take nat_diff_distrib' max_def)

lemma split_acc_run:
  "\<forall>ch\<in>set cs. \<not> isspace ch \<Longrightarrow> split_acc w cs = (if w @ cs = [] then [] else [w @ cs])"
  by (induction cs arbitrary: w) auto

lemma split_acc_space:
  "isspace sp \<Longrightarrow> split_acc w (a @ sp # b) = split_acc w a @ split_acc [] b"
  by (induction a arbitrary: w) auto

subsection \<open>The decoder\<close>

lemma words_loop_valid: "fst (words_loop d ws ph) = (\<forall>w\<in>set ws. w \<in> dom d)"
  by (induction ws arbitrary: ph) (auto split: option.splits)

lemma words_loop_phrase:
  "\<forall>w\<in>set ws. w \<in> dom d \<Longrightarrow> snd (words_loop d ws ph) = ph @ concat (map (\<lambda>w. the (d w)) ws)"
  by (induction ws arbitrary: ph) (auto split: option.splits)

lemma decode_one_map:
  "map_of (decode_one s kt out) k =
     (if k = fst kt \<and> (\<forall>w\<in>set (py_split (snd kt)). w \<in> dom (phon_dict s))
      then Some (butlast (concat (map (\<lambda>w. the (phon_dict s w)) (py_split (snd kt)))))
      else map_of out k)"
  using words_loop_valid[of "phon_dict s" "py_split (snd kt)" "[]"]
        words_loop_phrase[of "py_split (snd kt)" "phon_dict s" "[]"]
  by (auto simp: decode_one_def slice_to_minus_one update_conv' split: prod.splits)

lemma fold_decode_map:
  "distinct (map fst ts) \<Longrightarrow>
   map_of (fold (decode_one s) ts out) k =
     (case map_of ts k of
        None \<Rightarrow> map_of out k
      | Some text \<Rightarrow>
          if \<forall>w\<in>set (py_split text). w \<in> dom (phon_dict s)
          then Some (butlast (concat (map (\<lambda>w. the (phon_dict s w)) (py_split text))))
          else map_of out k)"
proof (induction ts arbitrary: out)
  case Nil
  then show ?case by simp
next
  case (Cons kt ts)
  have notin: "map_of ts (fst kt) = None"
    using Cons.prems by (simp add: map_of_eq_None_iff)
  show ?case
  proof (cases "k = fst kt")
    case True
    with Cons notin show ?thesis
      by (cases kt) (simp add: decode_one_map)
  next
    case False
    with Cons show ?thesis
      by (cases kt) (simp add: decode_one_map split: option.splits)
  qed
qed

subsection \<open>What a call changes in the instance\<close>

lemma forget_formats_fields [simp]:
  "index (forget_formats s) = index s"
  "batch_count (forget_formats s) = batch_count s"
  "author_indexes (forget_formats s) = author_indexes s"
  "files (forget_formats s) = files s"
  "path (forget_formats s) = path s"
  "phon_dict (forget_formats s) = phon_dict s"
  by (simp_all add: forget_formats_def)

lemma forget_formats_upd [simp]:
  "forget_formats (s\<lparr>origin_format := x\<rparr>) = forget_formats s"
  "forget_formats (s\<lparr>target_format := y\<rparr>) = forget_formats s"
  by (simp_all add: forget_formats_def)

lemma export_loop_self: "self (snd (export_loop ev p ofmt tfmt parts c)) = self c"
  by (induction parts arbitrary: c) (auto split: sum.splits)

lemma priv_convert_frame:
  "forget_formats (self (snd (priv_convert_audios ev p c))) = forget_formats (self c)"
  by (simp add: priv_convert_audios_def Let_def export_loop_self split: sum.splits)

lemma chapter_audios_frame:
  "forget_formats (self (fst (snd (chapter_audios ev fmt p au c)))) = forget_formats (self c)"
proof -
  have a: "\<And>c1 r c2. priv_convert_audios ev p c1 = (r, c2) \<Longrightarrow>
            forget_formats (self c2) = forget_formats (self c1)"
    using priv_convert_frame by (metis snd_conv)
  show ?thesis
    by (auto simp: chapter_audios_def Let_def split: sum.splits prod.splits dest!: a)
qed

lemma process_chapter_frame:
  "forget_formats (self (fst (snd (process_chapter ev fmt ap ch acc c)))) = forget_formats (self c)"
proof -
  have a: "\<And>r c1 l. chapter_audios ev fmt (path_join ap ch) (snd acc) c = (r, c1, l) \<Longrightarrow>
            forget_formats (self c1) = forget_formats (self c)"
    using chapter_audios_frame by (metis fst_conv snd_conv)
  show ?thesis
    by (auto simp: process_chapter_def Let_def split: sum.splits prod.splits dest!: a)
qed

lemma chapters_loop_frame:
  "forget_formats (self (fst (snd (chapters_loop ev fmt ap chs acc c)))) = forget_formats (self c)"
proof (induction chs arbitrary: acc c)
  case Nil
  then show ?case by simp
next
  case (Cons ch chs)
  obtain r c1 l1 where p: "process_chapter ev fmt ap ch acc c = (r, c1, l1)"
    by (cases "process_chapter ev fmt ap ch acc c") auto
  have f1: "forget_formats (self c1) = forget_formats (self c)"
    using process_chapter_frame[of ev fmt ap ch acc c] p by simp
  show ?case
  proof (cases r)
    case (Inl e)
    with p f1 show ?thesis by simp
  next
    case (Inr acc1)
    obtain r2 c2 l2 where q: "chapters_loop ev fmt ap chs acc1 c1 = (r2, c2, l2)"
      by (cases "chapters_loop ev fmt ap chs acc1 c1") auto
    have "forget_formats (self c2) = forget_formats (self c1)"
      using Cons.IH[of acc1 c1] q by simp
    with p q f1 Inr show ?thesis by simp
  qed
qed

lemma gather_frame:
  "forget_formats (self (fst (snd (gather ev fmt c)))) = forget_formats (self (advance c))"
  by (simp add: gather_def author_gather_def Let_def chapters_loop_frame
           split: sum.splits option.splits)

lemma get_data_failure_state:
  "get_data ev fmt c = (Inl e, c', l) \<Longrightarrow> c' = fst (snd (gather ev fmt c))"
  by (auto simp: get_data_def split: sum.splits prod.splits)

subsection \<open>The cursor\<close>


lemma forget_formats_index_upd [simp]:
  "forget_formats (s\<lparr>index := i\<rparr>) = (forget_formats s)\<lparr>index := i\<rparr>"
  by (simp add: forget_formats_def)

lemma forget_formats_eqD:
  "forget_formats s = forget_formats s' \<Longrightarrow> origin_format s = origin_format s' \<Longrightarrow>
   target_format s = target_format s' \<Longrightarrow> s = s'"
  by (cases s, cases s') (simp add: forget_formats_def)

lemma get_data_success:
  "get_data ev fmt c = (Inr r, c', l) \<Longrightarrow>
   \<exists>ta c1. gather ev fmt c = (Inr ta, c1, l) \<and> pair_up ev (self c1) (fst ta) (snd ta) = Inr r
             \<and> c' = wrap_around c1"
  by (auto simp: get_data_def split: sum.splits prod.splits)

lemma gather_success_author:
  "gather ev fmt c = (Inr ta, c1, l) \<Longrightarrow>
   \<exists>author. py_index (author_indexes (self c)) (index (self c) + 1) = Inr author
             \<and> gather ev fmt c = author_gather ev fmt author (advance c)"
  by (auto simp: gather_def Let_def advance_def split: sum.splits)

lemma py_index_nonneg:
  "py_index xs i = Inr a \<Longrightarrow> 0 \<le> i \<Longrightarrow> a = xs ! nat i \<and> i < int (length xs)"
  by (auto simp: py_index_def split: if_splits)

lemma get_data_served:
  assumes "get_data ev fmt c = (Inr r, c', l)" and "0 \<le> index (self c) + 1"
  shows "gather ev fmt c
           = author_gather ev fmt (author_indexes (self c) ! nat (index (self c) + 1)) (advance c)"
proof -
  from get_data_success[OF assms(1)] obtain ta c1 where "gather ev fmt c = (Inr ta, c1, l)"
    by blast
  from gather_success_author[OF this] obtain author where
    a: "py_index (author_indexes (self c)) (index (self c) + 1) = Inr author"
    and g: "gather ev fmt c = author_gather ev fmt author (advance c)"
    by blast
  from py_index_nonneg[OF a assms(2)] g show ?thesis by simp
qed

lemma get_data_step:
  assumes "get_data ev fmt c = (Inr r, c', l)"
  shows "forget_formats (self c') =
           (forget_formats (self c))\<lparr>index :=
              (if index (self c) + 1 \<ge> batch_count (self c) - 1 then - 1
               else index (self c) + 1)\<rparr>"
proof -
  from get_data_success[OF assms] obtain ta c1 where
    g: "gather ev fmt c = (Inr ta, c1, l)" and w: "c' = wrap_around c1"
    by blast
  have f: "forget_formats (self c1) = forget_formats (self (advance c))"
    using gather_frame[of ev fmt c] g by simp
  then have "index (forget_formats (self c1)) = index (forget_formats (self (advance c)))"
    "batch_count (forget_formats (self c1)) = batch_count (forget_formats (self (advance c)))"
    by simp_all
  then have i: "index (self c1) = index (self c) + 1" "batch_count (self c1) = batch_count (self c)"
    by (simp_all add: advance_def)
  show ?thesis
    using f i w by (simp add: wrap_around_def advance_def)
qed

lemma get_data_cursor:
  assumes "get_data ev fmt c = (Inr r, c', l)"
  shows "index (self c') =
           (if index (self c) + 1 \<ge> batch_count (self c) - 1 then - 1 else index (self c) + 1)
         \<and> batch_count (self c') = batch_count (self c)
         \<and> author_indexes (self c') = author_indexes (self c)"
proof -
  let ?i = "if index (self c) + 1 \<ge> batch_count (self c) - 1 then - 1 else index (self c) + 1"
  have s: "forget_formats (self c') = (forget_formats (self c))\<lparr>index := ?i\<rparr>"
    using get_data_step[OF assms] .
  have "index (forget_formats (self c')) = index ((forget_formats (self c))\<lparr>index := ?i\<rparr>)"
    "batch_count (forget_formats (self c')) = batch_count ((forget_formats (self c))\<lparr>index := ?i\<rparr>)"
    "author_indexes (forget_formats (self c')) = author_indexes ((forget_formats (self c))\<lparr>index := ?i\<rparr>)"
    by (simp_all only: s)
  then show ?thesis by simp
qed

lemma init_cursor:
  assumes "init ev d p pe fz fs nf nl nc cl dp pp = Inr s"
  shows "index s = - 1 \<and> batch_count s = int (length (author_indexes s))"
  using assms
  by (auto simp: init_def get_files_def split: sum.splits if_splits)

subsection \<open>Conversion and the chapters\<close>

lemma chapter_audios_log:
  "listdir (disk c) p = Inr names \<Longrightarrow>
   snd (snd (chapter_audios ev fmt p au c))
     = (if \<exists>d\<in>set names. endswith d (''.'' @ fmt) then [] else [p])"
  by (auto simp: chapter_audios_def Let_def filter_empty_conv split: sum.splits prod.splits)

lemma chapter_audios_kept:
  assumes "\<forall>names. listdir (disk c) p = Inr names \<longrightarrow> (\<exists>d\<in>set names. endswith d (''.'' @ fmt))"
  shows "fst (snd (chapter_audios ev fmt p au c)) = c \<and> snd (snd (chapter_audios ev fmt p au c)) = []"
  using assms
  by (auto simp: chapter_audios_def Let_def filter_empty_conv split: sum.splits prod.splits)

lemma process_chapter_kept:
  assumes "\<forall>names. listdir (disk c) (path_join ap ch) = Inr names
             \<longrightarrow> (\<exists>d\<in>set names. endswith d (''.'' @ fmt))"
  shows "fst (snd (process_chapter ev fmt ap ch acc c)) = c
         \<and> snd (snd (process_chapter ev fmt ap ch acc c)) = []"
proof -
  obtain r c1 l where q: "chapter_audios ev fmt (path_join ap ch) (snd acc) c = (r, c1, l)"
    by (cases "chapter_audios ev fmt (path_join ap ch) (snd acc) c") auto
  have "c1 = c \<and> l = []"
    using chapter_audios_kept[OF assms, of ev "snd acc"] q by simp
  with q show ?thesis
    by (auto simp: process_chapter_def Let_def split: sum.splits prod.splits)
qed

lemma chapters_loop_kept:
  assumes "\<forall>ch\<in>set chs. \<forall>names. listdir (disk c) (path_join ap ch) = Inr names
             \<longrightarrow> (\<exists>d\<in>set names. endswith d (''.'' @ fmt))"
  shows "fst (snd (chapters_loop ev fmt ap chs acc c)) = c
         \<and> snd (snd (chapters_loop ev fmt ap chs acc c)) = []"
  using assms
proof (induction chs arbitrary: acc)
  case Nil
  then show ?case by simp
next
  case (Cons ch chs)
  obtain r c1 l1 where q: "process_chapter ev fmt ap ch acc c = (r, c1, l1)"
    by (cases "process_chapter ev fmt ap ch acc c") auto
  have k: "c1 = c \<and> l1 = []"
    using process_chapter_kept[of c ap ch fmt ev acc] Cons.prems q by simp
  show ?case
  proof (cases r)
    case (Inl e)
    with q k show ?thesis by simp
  next
    case (Inr acc1)
    obtain r2 c2 l2 where q2: "chapters_loop ev fmt ap chs acc1 c = (r2, c2, l2)"
      by (cases "chapters_loop ev fmt ap chs acc1 c") auto
    have "c2 = c \<and> l2 = []"
      using Cons.IH[of acc1] Cons.prems q2 by simp
    with q q2 k Inr show ?thesis by simp
  qed
qed

lemma get_data_kept:
  assumes a: "py_index (author_indexes (self c)) (index (self c) + 1) = Inr author"
    and f: "map_of (files (self c)) author = Some chs"
    and h: "\<forall>ch\<in>set chs. \<forall>names.
              listdir (disk c) (path_join (path_join (path (self c)) author) ch) = Inr names
                \<longrightarrow> (\<exists>d\<in>set names. endswith d (''.'' @ fmt))"
  shows "snd (snd (get_data ev fmt c)) = [] \<and> disk (fst (snd (get_data ev fmt c))) = disk c"
proof -
  let ?ap = "path_join (path (self c)) author"
  have h': "\<forall>ch\<in>set chs. \<forall>names. listdir (disk (advance c)) (path_join ?ap ch) = Inr names
              \<longrightarrow> (\<exists>d\<in>set names. endswith d (''.'' @ fmt))"
    using h by (simp add: advance_def)
  obtain r c1 l where q: "chapters_loop ev fmt ?ap chs ([], []) (advance c) = (r, c1, l)"
    by (cases "chapters_loop ev fmt ?ap chs ([], []) (advance c)") auto
  have k: "c1 = advance c \<and> l = []"
    using chapters_loop_kept[OF h', of ev "([], [])"] q by simp
  have g: "gather ev fmt c = (r, advance c, [])"
    using a f q k by (simp add: gather_def author_gather_def Let_def advance_def)
  show ?thesis
    using g by (auto simp: get_data_def wrap_around_def advance_def split: sum.splits)
qed

lemma chapters_loop_append:
  "chapters_loop ev fmt ap pre acc c = (Inr acc1, c1, l1) \<Longrightarrow>
   chapters_loop ev fmt ap (pre @ rest) acc c
     = (case chapters_loop ev fmt ap rest acc1 c1 of (r, c2, l2) \<Rightarrow> (r, c2, l1 @ l2))"
proof (induction pre arbitrary: acc c l1)
  case Nil
  then show ?case by (auto split: prod.splits)
next
  case (Cons ch pre)
  obtain r ca la where q: "process_chapter ev fmt ap ch acc c = (r, ca, la)"
    by (cases "process_chapter ev fmt ap ch acc c") auto
  show ?case
  proof (cases r)
    case (Inl e)
    with q Cons.prems show ?thesis by simp
  next
    case (Inr acca)
    obtain r2 cb lb where q2: "chapters_loop ev fmt ap pre acca ca = (r2, cb, lb)"
      by (cases "chapters_loop ev fmt ap pre acca ca") auto
    with q Inr Cons.prems have e: "r2 = Inr acc1" "cb = c1" "l1 = la @ lb"
      by simp_all
    have "chapters_loop ev fmt ap (pre @ rest) acca ca
            = (case chapters_loop ev fmt ap rest acc1 c1 of (r, c2, l2) \<Rightarrow> (r, c2, lb @ l2))"
      using Cons.IH[of acca ca lb] q2 e by simp
    with q Inr e show ?thesis
      by (auto split: prod.splits)
  qed
qed

lemma process_chapter_no_transcript:
  "listdir (disk c) (path_join ap ch) = Inr names \<Longrightarrow>
   filter (\<lambda>f. endswith f ''.txt'') names = [] \<Longrightarrow>
   process_chapter ev fmt ap ch acc c = (Inl IndexError, c, [])"
  by (simp add: process_chapter_def Let_def py_index_def)

lemma process_chapter_first_transcript:
  "listdir (disk c) (path_join ap ch) = Inr names \<Longrightarrow>
   filter (\<lambda>f. endswith f ''.txt'') names = tf # others \<Longrightarrow>
   readlines (disk c) (path_join (path_join ap ch) tf) = Inr raw \<Longrightarrow>
   process_chapter ev fmt ap ch acc c
     = (case chapter_audios ev fmt (path_join ap ch) (snd acc) c of
          (Inl e, c1, l) \<Rightarrow> (Inl e, c1, l)
        | (Inr audios, c1, l) \<Rightarrow>
            (Inr (fold parse_line (map rstrip_nl raw) (fst acc), audios), c1, l))"
  by (simp add: process_chapter_def Let_def py_index_def)

lemma get_data_no_transcript:
  assumes a: "py_index (author_indexes (self c)) (index (self c) + 1) = Inr author"
    and f: "map_of (files (self c)) author = Some (pre @ ch # post)"
    and p: "chapters_loop ev fmt (path_join (path (self c)) author) pre ([], []) (advance c)
              = (Inr acc1, c1, l1)"
    and n: "listdir (disk c1) (path_join (path_join (path (self c)) author) ch) = Inr names"
    and z: "filter (\<lambda>f. endswith f ''.txt'') names = []"
  shows "get_data ev fmt c = (Inl IndexError, c1, l1)"
proof -
  let ?ap = "path_join (path (self c)) author"
  have "chapters_loop ev fmt ?ap (ch # post) acc1 c1 = (Inl IndexError, c1, [])"
    using process_chapter_no_transcript[OF n z, of ev fmt acc1] by simp
  then have "chapters_loop ev fmt ?ap (pre @ ch # post) ([], []) (advance c)
               = (Inl IndexError, c1, l1)"
    using chapters_loop_append[OF p, of "ch # post"] by simp
  then have "gather ev fmt c = (Inl IndexError, c1, l1)"
    using a f by (simp add: gather_def author_gather_def Let_def advance_def)
  then show ?thesis by (simp add: get_data_def)
qed

subsection \<open>The constructor\<close>

lemma dict_choice:
  "(if dp = None
    then (if pp = None then get_phoneme_dict ev None None else get_phoneme_dict ev None pp)
    else if pp \<noteq> None then get_phoneme_dict ev dp pp else get_phoneme_dict ev dp None)
   = get_phoneme_dict ev dp pp"
  by simp

lemma init_no_listing:
  "listdir d p = Inl e \<Longrightarrow>
   init ev d p pe fz fs nf nl nc cl dp pp
     = (case get_phoneme_dict ev dp pp of Inl e' \<Rightarrow> Inl e' | Inr pd \<Rightarrow> Inl e)"
  by (simp add: init_def dict_choice get_files_def subdirs_def split: sum.splits)

subsection \<open>Pairing by key\<close>

lemma decode_one_distinct:
  "distinct (map fst out) \<Longrightarrow> distinct (map fst (decode_one s kt out))"
  by (auto simp: decode_one_def AList.distinct_update split: prod.splits)

lemma fold_decode_distinct:
  "distinct (map fst out) \<Longrightarrow> distinct (map fst (fold (decode_one s) ts out))"
  by (induction ts arbitrary: out) (simp_all add: decode_one_distinct)

lemma phon_distinct: "distinct (map fst (get_phoneme_transcription s ts))"
  by (simp add: get_phoneme_transcription_def fold_decode_distinct)

lemma join_loop_map:
  "distinct (map fst phon) \<Longrightarrow> join_loop phon scaled res = Inr out \<Longrightarrow>
   map_of out k =
     (case map_of phon k of
        None \<Rightarrow> map_of res k
      | Some ph \<Rightarrow> (case map_of scaled k of None \<Rightarrow> None | Some m \<Rightarrow> Some (ph, m)))"
proof (induction phon arbitrary: res)
  case Nil
  then show ?case by simp
next
  case (Cons kt phon)
  obtain m where m: "map_of scaled (fst kt) = Some m"
    using Cons.prems(2) by (cases "map_of scaled (fst kt)") auto
  have j: "join_loop phon scaled (AList.update (fst kt) (snd kt, m) res) = Inr out"
    using Cons.prems(2) m by simp
  have notin: "map_of phon (fst kt) = None"
    using Cons.prems(1) by (simp add: map_of_eq_None_iff)
  have ih: "map_of out k =
     (case map_of phon k of
        None \<Rightarrow> map_of (AList.update (fst kt) (snd kt, m) res) k
      | Some ph \<Rightarrow> (case map_of scaled k of None \<Rightarrow> None | Some m \<Rightarrow> Some (ph, m)))"
    using Cons.IH[OF _ j] Cons.prems(1) by simp
  show ?case
  proof (cases "k = fst kt")
    case True
    with ih notin m show ?thesis by (cases kt) (simp add: update_conv')
  next
    case False
    with ih show ?thesis by (cases kt) (simp add: update_conv' split: option.splits)
  qed
qed

lemma join_loop_found:
  "join_loop phon scaled res = Inr out \<Longrightarrow> \<forall>k\<in>fst ` set phon. map_of scaled k \<noteq> None"
  by (induction phon arbitrary: res) (auto split: option.splits)

lemma join_loop_raises:
  "join_loop phon scaled res = Inl e \<Longrightarrow> e = KeyError"
  by (induction phon arbitrary: res) (auto split: option.splits)

lemma join_loop_missing:
  "\<exists>k\<in>fst ` set phon. map_of scaled k = None \<Longrightarrow> join_loop phon scaled res = Inl KeyError"
proof (induction phon arbitrary: res)
  case Nil
  then show ?case by simp
next
  case (Cons kt phon)
  show ?case
  proof (cases "map_of scaled (fst kt)")
    case None
    then show ?thesis by simp
  next
    case (Some m)
    with Cons.prems have "\<exists>k\<in>fst ` set phon. map_of scaled k = None"
      by auto
    from Cons.IH[OF this] Some show ?thesis by simp
  qed
qed

lemma map_of_None_keys: "(map_of xs k = None) = (k \<notin> fst ` set xs)"
  by (simp add: map_of_eq_None_iff)

lemma fold_parse_distinct:
  "distinct (map fst ts) \<Longrightarrow> distinct (map fst (fold parse_line ls ts))"
  by (induction ls arbitrary: ts) (simp_all add: parse_line_def Let_def AList.distinct_update)

lemma process_chapter_distinct:
  "distinct (map fst (fst acc)) \<Longrightarrow> process_chapter ev fmt ap ch acc c = (Inr acc1, c1, l) \<Longrightarrow>
   distinct (map fst (fst acc1))"
  by (auto simp: process_chapter_def Let_def fold_parse_distinct split: sum.splits prod.splits)

lemma chapters_loop_distinct:
  "distinct (map fst (fst acc)) \<Longrightarrow> chapters_loop ev fmt ap chs acc c = (Inr acc1, c1, l) \<Longrightarrow>
   distinct (map fst (fst acc1))"
proof (induction chs arbitrary: acc c l)
  case Nil
  then show ?case by simp
next
  case (Cons ch chs)
  obtain r ca la where q: "process_chapter ev fmt ap ch acc c = (r, ca, la)"
    by (cases "process_chapter ev fmt ap ch acc c") auto
  show ?case
  proof (cases r)
    case (Inl e)
    with q Cons.prems(2) show ?thesis by simp
  next
    case (Inr acca)
    have d: "distinct (map fst (fst acca))"
      using process_chapter_distinct[OF Cons.prems(1)] q Inr by simp
    obtain r2 cb lb where q2: "chapters_loop ev fmt ap chs acca ca = (r2, cb, lb)"
      by (cases "chapters_loop ev fmt ap chs acca ca") auto
    with q Inr Cons.prems(2) have "r2 = Inr acc1" "cb = c1" by simp_all
    with Cons.IH[OF d] q2 show ?thesis by simp
  qed
qed

lemma gather_distinct:
  "gather ev fmt c = (Inr ta, c1, l) \<Longrightarrow> distinct (map fst (fst ta))"
proof -
  assume g: "gather ev fmt c = (Inr ta, c1, l)"
  have e: "distinct (map fst (fst (([], []) :: (string, string) dict \<times> (string, 'a \<times> int) dict)))"
    by simp
  from g show ?thesis
    by (auto simp: gather_def author_gather_def Let_def
             split: sum.splits option.splits dest: chapters_loop_distinct[OF e])
qed

subsection \<open>The MFCC fields\<close>

lemma reconfigure_fields [simp]:
  "origin_format (reconfigure q s) = origin_format s"
  "target_format (reconfigure q s) = target_format s"
  "index (reconfigure q s) = index s"
  "batch_count (reconfigure q s) = batch_count s"
  "author_indexes (reconfigure q s) = author_indexes s"
  "files (reconfigure q s) = files s"
  "path (reconfigure q s) = path s"
  "phon_dict (reconfigure q s) = phon_dict s"
  by (simp_all add: reconfigure_def split: prod.splits)

lemma reconfigure_commute [simp]:
  "(reconfigure q s)\<lparr>origin_format := x\<rparr> = reconfigure q (s\<lparr>origin_format := x\<rparr>)"
  "(reconfigure q s)\<lparr>target_format := y\<rparr> = reconfigure q (s\<lparr>target_format := y\<rparr>)"
  "(reconfigure q s)\<lparr>index := i\<rparr> = reconfigure q (s\<lparr>index := i\<rparr>)"
  by (simp_all add: reconfigure_def split: prod.splits)

lemma reparam_simps [simp]:
  "disk (reparam q c) = disk c"
  "self (reparam q c) = reconfigure q (self c)"
  "(reparam q c)\<lparr>disk := d\<rparr> = reparam q (c\<lparr>disk := d\<rparr>)"
  "(reparam q c)\<lparr>self := reconfigure q s\<rparr> = reparam q (c\<lparr>self := s\<rparr>)"
  by (simp_all add: reparam_def)

lemma export_loop_reparam:
  "export_loop ev p ofmt tfmt parts (reparam q c)
     = (case export_loop ev p ofmt tfmt parts c of (r, c') \<Rightarrow> (r, reparam q c'))"
  by (induction parts arbitrary: c) (simp_all split: sum.splits)

lemma priv_convert_reparam:
  "priv_convert_audios ev p (reparam q c)
     = (case priv_convert_audios ev p c of (r, c') \<Rightarrow> (r, reparam q c'))"
  by (simp add: priv_convert_audios_def Let_def export_loop_reparam split: sum.splits)

lemma chapter_audios_reparam:
  "chapter_audios ev fmt p au (reparam q c)
     = (case chapter_audios ev fmt p au c of (r, c', l) \<Rightarrow> (r, reparam q c', l))"
proof (cases "listdir (disk c) p")
  case (Inl e)
  then show ?thesis by (simp add: chapter_audios_def)
next
  case (Inr names)
  show ?thesis
  proof (cases "filter (\<lambda>d. endswith d (''.'' @ fmt)) names = []")
    case False
    with Inr show ?thesis
      by (simp add: chapter_audios_def Let_def split: sum.splits)
  next
    case True
    define c1 where "c1 = (if target_format (self c) = None
                           then c\<lparr>self := (self c)\<lparr>target_format := Some fmt\<rparr>\<rparr> else c)"
    have e1: "(if target_format (self (reparam q c)) = None
               then (reparam q c)\<lparr>self := (self (reparam q c))\<lparr>target_format := Some fmt\<rparr>\<rparr>
               else reparam q c) = reparam q c1"
      by (simp add: c1_def)
    obtain r c2 where pc: "priv_convert_audios ev p c1 = (r, c2)"
      by (cases "priv_convert_audios ev p c1") auto
    have pr: "priv_convert_audios ev p (reparam q c1) = (r, reparam q c2)"
      using priv_convert_reparam[of ev p q c1] pc by simp
    have a: "chapter_audios ev fmt p au c =
       (case r of
          Inl e \<Rightarrow> (Inl e, c2, [p])
        | Inr u \<Rightarrow>
            (case listdir (disk c2) p of
               Inl e \<Rightarrow> (Inl e, c2, [p])
             | Inr names2 \<Rightarrow>
                 (case read_audios (disk c2) p (filter (\<lambda>d. endswith d (''.'' @ fmt)) names2) au of
                    Inl e \<Rightarrow> (Inl e, c2, [p])
                  | Inr audios' \<Rightarrow> (Inr audios', c2, [p]))))"
      using Inr True pc unfolding chapter_audios_def Let_def c1_def[symmetric]
      by (simp split: sum.splits)
    have b: "chapter_audios ev fmt p au (reparam q c) =
       (case r of
          Inl e \<Rightarrow> (Inl e, reparam q c2, [p])
        | Inr u \<Rightarrow>
            (case listdir (disk c2) p of
               Inl e \<Rightarrow> (Inl e, reparam q c2, [p])
             | Inr names2 \<Rightarrow>
                 (case read_audios (disk c2) p (filter (\<lambda>d. endswith d (''.'' @ fmt)) names2) au of
                    Inl e \<Rightarrow> (Inl e, reparam q c2, [p])
                  | Inr audios' \<Rightarrow> (Inr audios', reparam q c2, [p]))))"
      using Inr True pr unfolding chapter_audios_def Let_def e1
      by (simp split: sum.splits)
    show ?thesis
      unfolding a b by (simp split: sum.splits)
  qed
qed

lemma process_chapter_reparam:
  "process_chapter ev fmt ap ch acc (reparam q c)
     = (case process_chapter ev fmt ap ch acc c of (r, c', l) \<Rightarrow> (r, reparam q c', l))"
  by (simp add: process_chapter_def Let_def chapter_audios_reparam split: sum.splits prod.splits)

lemma chapters_loop_reparam:
  "chapters_loop ev fmt ap chs acc (reparam q c)
     = (case chapters_loop ev fmt ap chs acc c of (r, c', l) \<Rightarrow> (r, reparam q c', l))"
  by (induction chs arbitrary: acc c) (simp_all add: process_chapter_reparam split: sum.splits prod.splits)

lemma advance_reparam: "advance (reparam q c) = reparam q (advance c)"
  by (simp add: advance_def)

lemma wrap_around_reparam: "wrap_around (reparam q c) = reparam q (wrap_around c)"
  by (simp add: wrap_around_def)

lemma gather_reparam:
  "gather ev fmt (reparam q c)
     = (case gather ev fmt c of (r, c', l) \<Rightarrow> (r, reparam q c', l))"
  by (simp add: gather_def author_gather_def Let_def advance_reparam chapters_loop_reparam
           split: sum.splits option.splits)

lemma decode_one_reconfigure: "decode_one (reconfigure q s) = decode_one s"
  by (rule ext, rule ext) (simp add: decode_one_def)

lemma scale_data_reconfigure: "scale_data ev (reconfigure q s) ks ms = scale_data ev s ks ms"
  by (simp add: scale_data_def)

lemma scaled_features_reconfigure:
  "scaled_features ev (reconfigure q s) au = scaled_features ev s au"
  by (simp add: scaled_features_def get_mfcc_def scale_data_reconfigure cong: sum.case_cong)

lemma phonemes_reconfigure:
  "get_phoneme_transcription (reconfigure q s) ts = get_phoneme_transcription s ts"
  by (simp add: get_phoneme_transcription_def decode_one_reconfigure)

lemma pair_up_reconfigure: "pair_up ev (reconfigure q s) ts au = pair_up ev s ts au"
  by (simp add: pair_up_def scaled_features_reconfigure phonemes_reconfigure cong: sum.case_cong)

lemma get_data_reparam:
  "get_data ev fmt (reparam q c)
     = (case get_data ev fmt c of (r, c', l) \<Rightarrow> (r, reparam q c', l))"
proof -
  obtain r c1 l where g: "gather ev fmt c = (r, c1, l)"
    by (cases "gather ev fmt c") auto
  have g': "gather ev fmt (reparam q c) = (r, reparam q c1, l)"
    using gather_reparam[of ev fmt q c] g by simp
  show ?thesis
  proof (cases r)
    case (Inl e)
    with g g' show ?thesis by (simp add: get_data_def)
  next
    case (Inr ta)
    show ?thesis
    proof (cases "pair_up ev (self c1) (fst ta) (snd ta)")
      case (Inl e)
      with g g' Inr show ?thesis
        by (simp add: get_data_def pair_up_reconfigure)
    next
      case (Inr result)
      with g g' \<open>r = Inr ta\<close> show ?thesis
        by (simp add: get_data_def pair_up_reconfigure wrap_around_reparam)
    qed
  qed
qed

subsection \<open>Scaling\<close>

lemma scale_row_length [simp]: "length (scale_row xs) = length xs"
  by (simp add: scale_row_def Let_def)


lemma affine_form:
  "d \<noteq> 0 \<Longrightarrow> v * (2 / d) + (- 1 - lo * (2 / d)) = - 1 + 2 * (v - lo) / (d :: real)"
  by (simp add: field_simps)

lemma scale_row_formula:
  assumes "x \<in> set xs" and "y \<in> set xs" and "x \<noteq> y"
  shows "scale_row xs =
           map (\<lambda>v. - 1 + 2 * (v - Min (set xs)) / (Max (set xs) - Min (set xs))) xs"
proof -
  let ?lo = "Min (set xs)" and ?hi = "Max (set xs)"
  have "?lo \<le> x" "x \<le> ?hi" "?lo \<le> y" "y \<le> ?hi"
    using assms by simp_all
  with assms(3) have d: "?hi - ?lo \<noteq> 0" by linarith
  have "map (\<lambda>v. v * (2 / (?hi - ?lo)) + (- 1 - ?lo * (2 / (?hi - ?lo)))) xs
          = map (\<lambda>v. - 1 + 2 * (v - ?lo) / (?hi - ?lo)) xs"
    using affine_form[OF d] by simp
  with d show ?thesis
    by (simp add: scale_row_def Let_def handle_zeros_in_scale_def)
qed

lemma scale_row_range:
  assumes "x \<in> set xs" and "y \<in> set xs" and "x \<noteq> y"
  shows "(\<forall>k<length xs. (xs ! k = Min (set xs) \<longrightarrow> scale_row xs ! k = - 1)
                       \<and> (xs ! k = Max (set xs) \<longrightarrow> scale_row xs ! k = 1))
         \<and> - 1 \<in> set (scale_row xs) \<and> 1 \<in> set (scale_row xs)
         \<and> (\<forall>v\<in>set (scale_row xs). - 1 \<le> v \<and> v \<le> 1)"
proof -
  let ?lo = "Min (set xs)" and ?hi = "Max (set xs)"
  let ?f = "\<lambda>v. - 1 + 2 * (v - ?lo) / (?hi - ?lo)"
  have ne: "set xs \<noteq> {}" using assms(1) by auto
  have "?lo \<le> x" "x \<le> ?hi" "?lo \<le> y" "y \<le> ?hi"
    using assms by simp_all
  with assms(3) have d: "0 < ?hi - ?lo" by linarith
  have form: "scale_row xs = map ?f xs"
    using scale_row_formula[OF assms] .
  have flo: "?f ?lo = - 1" by simp
  have e: "2 * (?hi - ?lo) / (?hi - ?lo) = 2"
    using d by (subst nonzero_mult_div_cancel_right) simp_all
  have fhi: "?f ?hi = 1"
    unfolding e by simp
  have ends: "\<forall>k<length xs. (xs ! k = ?lo \<longrightarrow> scale_row xs ! k = - 1)
                       \<and> (xs ! k = ?hi \<longrightarrow> scale_row xs ! k = 1)"
    using flo fhi by (simp add: form)
  have lo_in: "?lo \<in> set xs" and hi_in: "?hi \<in> set xs"
    using ne by simp_all
  have m1: "- 1 \<in> set (scale_row xs)"
  proof -
    have "?f ?lo \<in> ?f ` set xs" using lo_in by (rule imageI)
    then show ?thesis using flo by (simp add: form)
  qed
  have p1: "1 \<in> set (scale_row xs)"
  proof -
    have "?f ?hi \<in> ?f ` set xs" using hi_in by (rule imageI)
    then show ?thesis using fhi by (simp add: form)
  qed
  have bounds: "\<forall>v\<in>set (scale_row xs). - 1 \<le> v \<and> v \<le> 1"
  proof
    fix v assume "v \<in> set (scale_row xs)"
    then obtain u where u: "u \<in> set xs" and v: "v = ?f u"
      by (auto simp: form)
    define t where "t = (u - ?lo) / (?hi - ?lo)"
    have "?lo \<le> u" "u \<le> ?hi" using u by simp_all
    then have t: "0 \<le> t" "t \<le> 1"
      using d by (simp_all add: t_def)
    have "v = - 1 + 2 * t"
      unfolding v t_def by (simp only: times_divide_eq_right)
    with t show "- 1 \<le> v \<and> v \<le> 1" by simp
  qed
  from ends m1 p1 bounds show ?thesis by blast
qed

lemma scale_loop_sk:
  "minmax_scale ev = sk_minmax_scale \<Longrightarrow> scale_loop ev ms acc = Inr out \<Longrightarrow>
   out = acc @ map (map scale_row) ms"
proof (induction ms arbitrary: acc)
  case Nil
  then show ?case by simp
next
  case (Cons m ms)
  from Cons.prems have ok: "sk_minmax_scale m = Inr (map scale_row m)"
    by (auto simp: sk_minmax_scale_def split: if_splits)
  with Cons.prems have "scale_loop ev ms (acc @ [map scale_row m]) = Inr out"
    by simp
  from Cons.IH[OF Cons.prems(1) this] show ?case by simp
qed



lemma key_loop_map:
  "length ks = length ms \<Longrightarrow> distinct ks \<Longrightarrow> key_loop ks ms d = Inr out \<Longrightarrow>
   i < length ks \<Longrightarrow> map_of out (ks ! i) = Some (ms ! i)"
proof (induction ks ms d arbitrary: i rule: key_loop.induct)
  case (1 audios scaled_mfcc)
  then show ?case by simp
next
  case (2 k ks scaled_mfcc)
  then show ?case by simp
next
  case (3 k ks a audios scaled_mfcc)
  have keep: "\<And>d. key_loop ks audios d = Inr out \<Longrightarrow> k \<notin> set ks \<Longrightarrow>
                length ks = length audios \<Longrightarrow> map_of out k = map_of d k"
  proof -
    fix d :: "(string, 'a) dict"
    show "key_loop ks audios d = Inr out \<Longrightarrow> k \<notin> set ks \<Longrightarrow>
          length ks = length audios \<Longrightarrow> map_of out k = map_of d k"
    proof (induction ks audios d rule: key_loop.induct)
      case (1 audios scaled_mfcc)
      then show ?case by simp
    next
      case (2 k' ks scaled_mfcc)
      then show ?case by simp
    next
      case (3 k' ks a audios scaled_mfcc)
      then show ?case by (simp add: update_conv')
    qed
  qed
  show ?case
  proof (cases i)
    case 0
    have "map_of out k = map_of (AList.update k a scaled_mfcc) k"
      using keep[of "AList.update k a scaled_mfcc"] "3.prems" by simp
    with 0 show ?thesis by (simp add: update_conv')
  next
    case (Suc n)
    with "3.IH"[of n] "3.prems" show ?thesis by simp
  qed
qed

lemma scale_data_sk:
  assumes sk: "minmax_scale ev = sk_minmax_scale"
    and run: "scale_data ev s keys mfccs = Inr scaled"
    and len: "length keys = length mfccs" and dist: "distinct keys" and i: "i < length keys"
  shows "map_of scaled (keys ! i) = Some (map scale_row (mfccs ! i))"
proof -
  from run obtain audios where sl: "scale_loop ev mfccs [] = Inr audios"
    and kl: "key_loop keys audios [] = Inr scaled"
    by (auto simp: scale_data_def split: sum.splits)
  have a: "audios = map (map scale_row) mfccs"
    using scale_loop_sk[OF sk sl] by simp
  have "map_of scaled (keys ! i) = Some (audios ! i)"
    using key_loop_map[OF _ dist kl i] len a by simp
  with a i len show ?thesis by simp
qed


section \<open>The claims\<close>

text \<open>
  C5. The decoder splits the text of every transcript at whitespace (a run of characters
  without whitespace is one word, and whitespace separates words). An utterance with a
  word that the dictionary lacks gets no entry at all; every other utterance gets the
  phonemes of its words, in the order of the words, without the last element. The keys of
  a Python dict are distinct.
\<close>

theorem decoder_drops_or_concatenates:
  assumes "distinct (map fst transcriptions)"
  shows "map_of (get_phoneme_transcription s transcriptions) key =
           (case map_of transcriptions key of
              None \<Rightarrow> None
            | Some text \<Rightarrow>
                if \<forall>w\<in>set (py_split text). w \<in> dom (phon_dict s)
                then Some (butlast (concat (map (\<lambda>w. the (phon_dict s w)) (py_split text))))
                else None)
         \<and> (w \<noteq> [] \<and> (\<forall>ch\<in>set w. \<not> isspace ch) \<longrightarrow> py_split w = [w])
         \<and> (isspace sp \<longrightarrow> py_split (a @ sp # b) = py_split a @ py_split b)
         \<and> py_split [] = []"
proof -
  have "map_of (get_phoneme_transcription s transcriptions) key =
           (case map_of transcriptions key of
              None \<Rightarrow> None
            | Some text \<Rightarrow>
                if \<forall>w\<in>set (py_split text). w \<in> dom (phon_dict s)
                then Some (butlast (concat (map (\<lambda>w. the (phon_dict s w)) (py_split text))))
                else None)"
    using fold_decode_map[OF assms, of s "[]" key]
    by (simp add: get_phoneme_transcription_def split: option.splits)
  moreover have "w \<noteq> [] \<and> (\<forall>ch\<in>set w. \<not> isspace ch) \<longrightarrow> py_split w = [w]"
    by (simp add: py_split_def split_acc_run)
  moreover have "isspace sp \<longrightarrow> py_split (a @ sp # b) = py_split a @ py_split b"
    by (simp add: py_split_def split_acc_space)
  moreover have "py_split [] = []"
    by (simp add: py_split_def)
  ultimately show ?thesis by blast
qed

text \<open>
  The example of the specification: with \<open>cat\<close> in the dictionary and \<open>the\<close> not in it,
  the text \<open>the cat\<close> is left out and the text \<open>cat\<close> gives \<open>K AE T\<close>.
\<close>

theorem decoder_drops_or_concatenates_witness:
  "distinct (map fst [(''u1'', '' the cat''), (''u2'', '' cat'')])
   \<and> map_of (get_phoneme_transcription ex_prep [(''u1'', '' the cat''), (''u2'', '' cat'')]) ''u1''
       = None
   \<and> map_of (get_phoneme_transcription ex_prep [(''u1'', '' the cat''), (''u2'', '' cat'')]) ''u2''
       = Some [''K'', ''AE'', ''T'']
   \<and> py_split ''cat'' = [''cat'']
   \<and> isspace CHR '' '' \<and> py_split (''the'' @ CHR '' '' # ''cat'') = [''the'', ''cat'']"
proof -
  have d: "distinct (map fst [(''u1'', '' the cat''), (''u2'', '' cat'')])"
    by simp
  show ?thesis
    using decoder_drops_or_concatenates[OF d, of ex_prep "''u1''" "''cat''" "CHR '' ''" "''the''" "''cat''"]
          decoder_drops_or_concatenates[OF d, of ex_prep "''u2''" "''cat''" "CHR '' ''" "''the''" "''cat''"]
    by (simp add: ex_prep_def ex_dict_def py_split_def isspace_def)
qed

text \<open>
  C10. \<open>get_data\<close> moves the cursor in its first statement and resets it in its last
  one, so a call that raises, wherever it does, leaves the cursor one further than it
  found it: the author is used up, and when the call was serving the last author the
  cursor stays at the number of authors minus one. The list of the authors and their
  number are as before.
\<close>

theorem failed_call_consumes_author:
  assumes "get_data ev fmt c = (Inl e, c', l)"
  shows "index (self c') = index (self c) + 1
         \<and> batch_count (self c') = batch_count (self c)
         \<and> author_indexes (self c') = author_indexes (self c)
         \<and> (index (self c) + 1 = batch_count (self c) - 1
              \<longrightarrow> index (self c') = batch_count (self c') - 1)"
proof -
  have "forget_formats (self c') = forget_formats (self (advance c))"
    using get_data_failure_state[OF assms] gather_frame by metis
  then have "index (forget_formats (self c')) = index (forget_formats (self (advance c)))"
     "batch_count (forget_formats (self c')) = batch_count (forget_formats (self (advance c)))"
     "author_indexes (forget_formats (self c')) = author_indexes (forget_formats (self (advance c)))"
    by simp_all
  then show ?thesis by (simp add: advance_def)
qed

text \<open>
  A corpus of one author whose only chapter has no transcript: the call raises, and the
  cursor is left at 0, the index of the last author.
\<close>

theorem failed_call_consumes_author_witness:
  "get_data ex_env ''wav''
       \<lparr>self = ex_prep, disk = chapter_disk [''u1.wav''] [] [(''r/a1/c1/u1.wav'', (1, 16000))]\<rparr>
     = (Inl IndexError,
        \<lparr>self = ex_prep\<lparr>index := 0\<rparr>,
         disk = chapter_disk [''u1.wav''] [] [(''r/a1/c1/u1.wav'', (1, 16000))]\<rparr>, [])
   \<and> index (ex_prep\<lparr>index := 0\<rparr>) = index ex_prep + 1
   \<and> index ex_prep + 1 = batch_count ex_prep - 1
   \<and> index (ex_prep\<lparr>index := 0\<rparr>) = batch_count (ex_prep\<lparr>index := 0\<rparr>) - 1"
proof -
  have run: "get_data ex_env ''wav''
       \<lparr>self = ex_prep, disk = chapter_disk [''u1.wav''] [] [(''r/a1/c1/u1.wav'', (1, 16000))]\<rparr>
     = (Inl IndexError,
        \<lparr>self = ex_prep\<lparr>index := 0\<rparr>,
         disk = chapter_disk [''u1.wav''] [] [(''r/a1/c1/u1.wav'', (1, 16000))]\<rparr>, [])"
    by (simp add: run_defs ex_prep_def chapter_disk_def)
  show ?thesis
    using run failed_call_consumes_author[OF run]
    by (simp add: ex_prep_def)
qed

text \<open>
  C4. The constructor leaves the cursor at \<open>-1\<close>. A call of \<open>get_data\<close> that returns
  moves the cursor one step and serves the author at the new index; the call that serves
  the last author puts the cursor back to \<open>-1\<close>. With three authors, three calls serve
  the authors 0, 1 and 2 and leave the instance as it was before the first call, apart
  from the two formats; so when the fourth call finds the file system and the formats of
  the first call, it is the first call again and returns the same batch. There is no
  last state: the cursor is back where it started.
\<close>

theorem cursor_cycle:
  "(init ev d p pe fz fs nf nl nc cl dp pp = Inr s
      \<longrightarrow> index s = - 1 \<and> batch_count s = int (length (author_indexes s)))
   \<and> (get_data ev fmt c = (Inr r, c', l)
      \<longrightarrow> index (self c') =
            (if index (self c) + 1 \<ge> batch_count (self c) - 1 then - 1 else index (self c) + 1)
          \<and> batch_count (self c') = batch_count (self c)
          \<and> author_indexes (self c') = author_indexes (self c)
          \<and> (0 \<le> index (self c) + 1
               \<longrightarrow> gather ev fmt c
                     = author_gather ev fmt
                         (author_indexes (self c) ! nat (index (self c) + 1)) (advance c)))
   \<and> (index (self c0) = - 1 \<and> batch_count (self c0) = 3
        \<and> get_data ev fmt c0 = (Inr r1, c1, l1)
        \<and> get_data ev fmt c1 = (Inr r2, c2, l2)
        \<and> get_data ev fmt c2 = (Inr r3, c3, l3)
      \<longrightarrow> index (self c1) = 0 \<and> index (self c2) = 1 \<and> index (self c3) = - 1
          \<and> gather ev fmt c0 = author_gather ev fmt (author_indexes (self c0) ! 0) (advance c0)
          \<and> gather ev fmt c1 = author_gather ev fmt (author_indexes (self c0) ! 1) (advance c1)
          \<and> gather ev fmt c2 = author_gather ev fmt (author_indexes (self c0) ! 2) (advance c2)
          \<and> (disk c3 = disk c0 \<and> origin_format (self c3) = origin_format (self c0)
                \<and> target_format (self c3) = target_format (self c0)
              \<longrightarrow> c3 = c0 \<and> get_data ev fmt c3 = (Inr r1, c1, l1)))"
proof -
  have part1: "init ev d p pe fz fs nf nl nc cl dp pp = Inr s
      \<longrightarrow> index s = - 1 \<and> batch_count s = int (length (author_indexes s))"
    using init_cursor by blast
  have part2: "get_data ev fmt c = (Inr r, c', l)
      \<longrightarrow> index (self c') =
            (if index (self c) + 1 \<ge> batch_count (self c) - 1 then - 1 else index (self c) + 1)
          \<and> batch_count (self c') = batch_count (self c)
          \<and> author_indexes (self c') = author_indexes (self c)
          \<and> (0 \<le> index (self c) + 1
               \<longrightarrow> gather ev fmt c
                     = author_gather ev fmt
                         (author_indexes (self c) ! nat (index (self c) + 1)) (advance c))"
    using get_data_cursor[of ev fmt c r c' l] get_data_served[of ev fmt c r c' l] by blast
  have part3: "index (self c0) = - 1 \<and> batch_count (self c0) = 3
        \<and> get_data ev fmt c0 = (Inr r1, c1, l1)
        \<and> get_data ev fmt c1 = (Inr r2, c2, l2)
        \<and> get_data ev fmt c2 = (Inr r3, c3, l3)
      \<longrightarrow> index (self c1) = 0 \<and> index (self c2) = 1 \<and> index (self c3) = - 1
          \<and> gather ev fmt c0 = author_gather ev fmt (author_indexes (self c0) ! 0) (advance c0)
          \<and> gather ev fmt c1 = author_gather ev fmt (author_indexes (self c0) ! 1) (advance c1)
          \<and> gather ev fmt c2 = author_gather ev fmt (author_indexes (self c0) ! 2) (advance c2)
          \<and> (disk c3 = disk c0 \<and> origin_format (self c3) = origin_format (self c0)
                \<and> target_format (self c3) = target_format (self c0)
              \<longrightarrow> c3 = c0 \<and> get_data ev fmt c3 = (Inr r1, c1, l1))"
  proof
    assume h: "index (self c0) = - 1 \<and> batch_count (self c0) = 3
        \<and> get_data ev fmt c0 = (Inr r1, c1, l1)
        \<and> get_data ev fmt c1 = (Inr r2, c2, l2)
        \<and> get_data ev fmt c2 = (Inr r3, c3, l3)"
    then have start: "index (self c0) = - 1" and three: "batch_count (self c0) = 3"
      and call1: "get_data ev fmt c0 = (Inr r1, c1, l1)"
      and call2: "get_data ev fmt c1 = (Inr r2, c2, l2)"
      and call3: "get_data ev fmt c2 = (Inr r3, c3, l3)"
      by simp_all
    have k1: "index (self c1) = 0" "batch_count (self c1) = 3"
      "author_indexes (self c1) = author_indexes (self c0)"
      using get_data_cursor[OF call1] start three by simp_all
    have k2: "index (self c2) = 1" "batch_count (self c2) = 3"
      "author_indexes (self c2) = author_indexes (self c0)"
      using get_data_cursor[OF call2] k1 by simp_all
    have k3: "index (self c3) = - 1"
      using get_data_cursor[OF call3] k2 by simp
    have s1: "forget_formats (self c1) = (forget_formats (self c0))\<lparr>index := 0\<rparr>"
      using get_data_step[OF call1] start three by simp
    have s2: "forget_formats (self c2) = (forget_formats (self c0))\<lparr>index := 1\<rparr>"
      using get_data_step[OF call2] k1 s1 by simp
    have s3: "forget_formats (self c3) = (forget_formats (self c0))\<lparr>index := - 1\<rparr>"
      using get_data_step[OF call3] k2 s2 by simp
    have cyc: "forget_formats (self c3) = forget_formats (self c0)"
    proof -
      have "(forget_formats (self c0))\<lparr>index := - 1\<rparr>
              = forget_formats ((self c0)\<lparr>index := index (self c0)\<rparr>)"
        using start by simp
      then show ?thesis using s3 by simp
    qed
    have g1: "gather ev fmt c0 = author_gather ev fmt (author_indexes (self c0) ! 0) (advance c0)"
      using get_data_served[OF call1] start by simp
    have g2: "gather ev fmt c1 = author_gather ev fmt (author_indexes (self c0) ! 1) (advance c1)"
      using get_data_served[OF call2] k1 by simp
    have g3: "gather ev fmt c2 = author_gather ev fmt (author_indexes (self c0) ! 2) (advance c2)"
      using get_data_served[OF call3] k2 by (simp add: numeral_2_eq_2)
    have same: "disk c3 = disk c0 \<and> origin_format (self c3) = origin_format (self c0)
              \<and> target_format (self c3) = target_format (self c0)
            \<longrightarrow> c3 = c0 \<and> get_data ev fmt c3 = (Inr r1, c1, l1)"
    proof
      assume e: "disk c3 = disk c0 \<and> origin_format (self c3) = origin_format (self c0)
              \<and> target_format (self c3) = target_format (self c0)"
      then have "self c3 = self c0"
        using forget_formats_eqD[OF cyc] by simp
      with e have "c3 = c0" by simp
      with call1 show "c3 = c0 \<and> get_data ev fmt c3 = (Inr r1, c1, l1)" by simp
    qed
    from k1(1) k2(1) k3 g1 g2 g3 same
    show "index (self c1) = 0 \<and> index (self c2) = 1 \<and> index (self c3) = - 1
          \<and> gather ev fmt c0 = author_gather ev fmt (author_indexes (self c0) ! 0) (advance c0)
          \<and> gather ev fmt c1 = author_gather ev fmt (author_indexes (self c0) ! 1) (advance c1)
          \<and> gather ev fmt c2 = author_gather ev fmt (author_indexes (self c0) ! 2) (advance c2)
          \<and> (disk c3 = disk c0 \<and> origin_format (self c3) = origin_format (self c0)
                \<and> target_format (self c3) = target_format (self c0)
              \<longrightarrow> c3 = c0 \<and> get_data ev fmt c3 = (Inr r1, c1, l1))"
      by blast
  qed
  from part1 part2 part3 show ?thesis by blast
qed

text \<open>
  The corpus of three authors: the constructor gives cursor \<open>-1\<close> and three authors, the
  calls return the batches of \<open>a1\<close>, \<open>a2\<close> and \<open>a3\<close>, and the fourth call returns the
  batch of \<open>a1\<close> again.
\<close>

theorem cursor_cycle_witness:
  "ex_init ''r'' ex_disk = Inr ex_prep3
   \<and> index ex_prep3 = - 1 \<and> batch_count ex_prep3 = 3
   \<and> get_data ex_env ''wav'' \<lparr>self = ex_prep3, disk = ex_disk\<rparr>
       = (Inr [(''u1'', [''K'', ''AE'', ''T''], 1101)],
          \<lparr>self = ex_prep3\<lparr>index := 0\<rparr>, disk = ex_disk\<rparr>, [])
   \<and> get_data ex_env ''wav'' \<lparr>self = ex_prep3\<lparr>index := 0\<rparr>, disk = ex_disk\<rparr>
       = (Inr [(''u2'', [''K'', ''AE'', ''T'', ''sil''], 1102)],
          \<lparr>self = ex_prep3\<lparr>index := 1\<rparr>, disk = ex_disk\<rparr>, [])
   \<and> get_data ex_env ''wav'' \<lparr>self = ex_prep3\<lparr>index := 1\<rparr>, disk = ex_disk\<rparr>
       = (Inr [(''u3'', [], 1103)],
          \<lparr>self = ex_prep3\<lparr>index := - 1\<rparr>, disk = ex_disk\<rparr>, [])
   \<and> get_data ex_env ''wav'' \<lparr>self = ex_prep3\<lparr>index := - 1\<rparr>, disk = ex_disk\<rparr>
       = (Inr [(''u1'', [''K'', ''AE'', ''T''], 1101)],
          \<lparr>self = ex_prep3\<lparr>index := 0\<rparr>, disk = ex_disk\<rparr>, [])"
proof -
  have i0: "ex_init ''r'' ex_disk = Inr ex_prep3"
    by (simp add: ex_init_def init_def ex_env_def get_files_def subdirs_def ex_disk_def
          mk_disk_def path_join_def ex_prep_def ex_prep3_def default_to_def)
  have st: "index ex_prep3 = - 1" "batch_count ex_prep3 = 3"
    by (simp_all add: ex_prep3_def ex_prep_def)
  have r1: "get_data ex_env ''wav'' \<lparr>self = ex_prep3, disk = ex_disk\<rparr>
       = (Inr [(''u1'', [''K'', ''AE'', ''T''], 1101)],
          \<lparr>self = ex_prep3\<lparr>index := 0\<rparr>, disk = ex_disk\<rparr>, [])"
    by (simp add: run_defs ex_prep3_def ex_prep_def ex_disk_def)
  have r2: "get_data ex_env ''wav'' \<lparr>self = ex_prep3\<lparr>index := 0\<rparr>, disk = ex_disk\<rparr>
       = (Inr [(''u2'', [''K'', ''AE'', ''T'', ''sil''], 1102)],
          \<lparr>self = ex_prep3\<lparr>index := 1\<rparr>, disk = ex_disk\<rparr>, [])"
    by (simp add: run_defs ex_prep3_def ex_prep_def ex_disk_def)
  have r3: "get_data ex_env ''wav'' \<lparr>self = ex_prep3\<lparr>index := 1\<rparr>, disk = ex_disk\<rparr>
       = (Inr [(''u3'', [], 1103)],
          \<lparr>self = ex_prep3\<lparr>index := - 1\<rparr>, disk = ex_disk\<rparr>, [])"
    by (simp add: run_defs ex_prep3_def ex_prep_def ex_disk_def)
  let ?C0 = "\<lparr>self = ex_prep3, disk = ex_disk\<rparr>"
  let ?C1 = "\<lparr>self = ex_prep3\<lparr>index := 0\<rparr>, disk = ex_disk\<rparr>"
  let ?C2 = "\<lparr>self = ex_prep3\<lparr>index := 1\<rparr>, disk = ex_disk\<rparr>"
  let ?C3 = "\<lparr>self = ex_prep3\<lparr>index := - 1\<rparr>, disk = ex_disk\<rparr>"
  have hyp: "index (self ?C0) = - 1 \<and> batch_count (self ?C0) = 3
        \<and> get_data ex_env ''wav'' ?C0 = (Inr [(''u1'', [''K'', ''AE'', ''T''], 1101)], ?C1, [])
        \<and> get_data ex_env ''wav'' ?C1 = (Inr [(''u2'', [''K'', ''AE'', ''T'', ''sil''], 1102)], ?C2, [])
        \<and> get_data ex_env ''wav'' ?C2 = (Inr [(''u3'', [], 1103)], ?C3, [])"
    using st r1 r2 r3 by simp
  have unchanged: "disk ?C3 = disk ?C0 \<and> origin_format (self ?C3) = origin_format (self ?C0)
        \<and> target_format (self ?C3) = target_format (self ?C0)"
    by simp
  have r4: "get_data ex_env ''wav'' ?C3 = (Inr [(''u1'', [''K'', ''AE'', ''T''], 1101)], ?C1, [])"
    using cursor_cycle[where ev = ex_env and fmt = "''wav''"
        and ?c0.0 = ?C0 and ?c1.0 = ?C1 and ?c2.0 = ?C2 and ?c3.0 = ?C3
        and ?r1.0 = "[(''u1'', [''K'', ''AE'', ''T''], 1101)]"
        and ?r2.0 = "[(''u2'', [''K'', ''AE'', ''T'', ''sil''], 1102)]"
        and ?r3.0 = "[(''u3'', [], 1103)]"
        and ?l1.0 = "[]" and ?l2.0 = "[]" and ?l3.0 = "[]"]
      hyp unchanged
    by blast
  from i0 st r1 r2 r3 r4 show ?thesis by simp
qed

text \<open>
  C9. In the audio step of a chapter directory, \<open>_convert_audios\<close> is invoked exactly
  when no entry of the directory ends with a dot and the requested format. So once the
  directory lists such an entry, as after a conversion that produced the files, the step
  invokes no conversion and changes nothing; and a call of \<open>get_data\<close> for an author
  whose chapter directories all list such an entry invokes no conversion and leaves the
  file system as it is.
\<close>

theorem conversion_only_when_missing:
  "(listdir (disk c) p = Inr names
      \<longrightarrow> snd (snd (chapter_audios ev fmt p au c))
            = (if \<exists>d\<in>set names. endswith d (''.'' @ fmt) then [] else [p]))
   \<and> (chapter_audios ev fmt p au c = (r, c1, lg) \<and> listdir (disk c1) p = Inr names1
        \<and> (\<exists>d\<in>set names1. endswith d (''.'' @ fmt))
      \<longrightarrow> snd (snd (chapter_audios ev fmt p au1 c1)) = []
          \<and> fst (snd (chapter_audios ev fmt p au1 c1)) = c1)
   \<and> (py_index (author_indexes (self c)) (index (self c) + 1) = Inr author
        \<and> map_of (files (self c)) author = Some chs
        \<and> (\<forall>ch\<in>set chs. \<forall>ns.
              listdir (disk c) (path_join (path_join (path (self c)) author) ch) = Inr ns
                \<longrightarrow> (\<exists>d\<in>set ns. endswith d (''.'' @ fmt)))
      \<longrightarrow> snd (snd (get_data ev fmt c)) = [] \<and> disk (fst (snd (get_data ev fmt c))) = disk c)"
proof -
  have a: "listdir (disk c) p = Inr names
      \<longrightarrow> snd (snd (chapter_audios ev fmt p au c))
            = (if \<exists>d\<in>set names. endswith d (''.'' @ fmt) then [] else [p])"
    using chapter_audios_log[of c p names ev fmt au] by blast
  have b: "chapter_audios ev fmt p au c = (r, c1, lg) \<and> listdir (disk c1) p = Inr names1
        \<and> (\<exists>d\<in>set names1. endswith d (''.'' @ fmt))
      \<longrightarrow> snd (snd (chapter_audios ev fmt p au1 c1)) = []
          \<and> fst (snd (chapter_audios ev fmt p au1 c1)) = c1"
  proof
    assume h: "chapter_audios ev fmt p au c = (r, c1, lg) \<and> listdir (disk c1) p = Inr names1
        \<and> (\<exists>d\<in>set names1. endswith d (''.'' @ fmt))"
    then have "\<forall>names. listdir (disk c1) p = Inr names \<longrightarrow> (\<exists>d\<in>set names. endswith d (''.'' @ fmt))"
      by auto
    from chapter_audios_kept[OF this, of ev au1]
    show "snd (snd (chapter_audios ev fmt p au1 c1)) = []
          \<and> fst (snd (chapter_audios ev fmt p au1 c1)) = c1"
      by simp
  qed
  have d: "py_index (author_indexes (self c)) (index (self c) + 1) = Inr author
        \<and> map_of (files (self c)) author = Some chs
        \<and> (\<forall>ch\<in>set chs. \<forall>ns.
              listdir (disk c) (path_join (path_join (path (self c)) author) ch) = Inr ns
                \<longrightarrow> (\<exists>d\<in>set ns. endswith d (''.'' @ fmt)))
      \<longrightarrow> snd (snd (get_data ev fmt c)) = [] \<and> disk (fst (snd (get_data ev fmt c))) = disk c"
    using get_data_kept[of c author chs fmt ev] by blast
  from a b d show ?thesis by blast
qed

text \<open>
  A chapter with \<open>u1.flac\<close> only: the first call of \<open>get_data\<close> for \<open>wav\<close> converts the
  directory, which then lists \<open>u1.wav\<close>, and the second call converts nothing.
\<close>

theorem conversion_only_when_missing_witness:
  "listdir flac_disk ''r/a1/c1'' = Inr [''t.txt'', ''u1.flac'']
   \<and> snd (snd (chapter_audios ex_env ''wav'' ''r/a1/c1'' [] \<lparr>self = ex_prep, disk = flac_disk\<rparr>))
       = [''r/a1/c1'']
   \<and> listdir (disk (fst (snd (chapter_audios ex_env ''wav'' ''r/a1/c1'' []
                                \<lparr>self = ex_prep, disk = flac_disk\<rparr>))))
         ''r/a1/c1'' = Inr [''t.txt'', ''u1.flac'', ''u1.wav'']
   \<and> snd (snd (chapter_audios ex_env ''wav'' ''r/a1/c1'' []
         (fst (snd (chapter_audios ex_env ''wav'' ''r/a1/c1'' []
                      \<lparr>self = ex_prep, disk = flac_disk\<rparr>))))) = []
   \<and> snd (snd (get_data ex_env ''wav'' \<lparr>self = ex_prep, disk = flac_disk\<rparr>)) = [''r/a1/c1'']
   \<and> snd (snd (get_data ex_env ''wav''
         (fst (snd (get_data ex_env ''wav'' \<lparr>self = ex_prep, disk = flac_disk\<rparr>))))) = []"
proof -
  let ?C0 = "\<lparr>self = ex_prep, disk = flac_disk\<rparr>"
  let ?A1 = "fst (snd (chapter_audios ex_env ''wav'' ''r/a1/c1'' [] ?C0))"
  let ?C1 = "fst (snd (get_data ex_env ''wav'' ?C0))"
  have l0: "listdir (disk ?C0) ''r/a1/c1'' = Inr [''t.txt'', ''u1.flac'']"
    by (simp add: flac_disk_def chapter_disk_def mk_disk_def)
  have s0: "snd (snd (chapter_audios ex_env ''wav'' ''r/a1/c1'' [] ?C0)) = [''r/a1/c1'']"
    using conversion_only_when_missing[where c = ?C0 and p = "''r/a1/c1''" and ev = ex_env
        and names = "[''t.txt'', ''u1.flac'']" and fmt = "''wav''" and au = "[]"] l0
    by (simp add: endswith_def)
  have has: "\<exists>d\<in>set [''t.txt'', ''u1.flac'', ''u1.wav'']. endswith d (''.'' @ ''wav'')"
    by (simp add: endswith_def)
  have la: "listdir (disk ?A1) ''r/a1/c1'' = Inr [''t.txt'', ''u1.flac'', ''u1.wav'']"
    by (simp add: run_defs ex_prep_def flac_disk_def chapter_disk_def)
  have qa: "chapter_audios ex_env ''wav'' ''r/a1/c1'' [] ?C0
      = (fst (chapter_audios ex_env ''wav'' ''r/a1/c1'' [] ?C0), ?A1,
         snd (snd (chapter_audios ex_env ''wav'' ''r/a1/c1'' [] ?C0)))"
    by simp
  have s1: "snd (snd (chapter_audios ex_env ''wav'' ''r/a1/c1'' [] ?A1)) = []"
    using conversion_only_when_missing[where c = ?C0 and p = "''r/a1/c1''" and ev = ex_env
        and fmt = "''wav''" and au = "[]" and ?c1.0 = ?A1 and ?au1.0 = "[]"
        and ?names1.0 = "[''t.txt'', ''u1.flac'', ''u1.wav'']"] qa la has
    by blast
  have g0: "snd (snd (get_data ex_env ''wav'' ?C0)) = [''r/a1/c1'']"
    by (simp add: run_defs ex_prep_def flac_disk_def chapter_disk_def)
  have self1: "author_indexes (self ?C1) = [''a1''] \<and> index (self ?C1) = - 1
      \<and> files (self ?C1) = [(''a1'', [''c1''])] \<and> path (self ?C1) = ''r''"
    by (simp add: run_defs ex_prep_def flac_disk_def chapter_disk_def)
  have l1: "listdir (disk ?C1) ''r/a1/c1'' = Inr [''t.txt'', ''u1.flac'', ''u1.wav'']"
    by (simp add: run_defs ex_prep_def flac_disk_def chapter_disk_def)
  have idx: "py_index (author_indexes (self ?C1)) (index (self ?C1) + 1) = Inr ''a1''"
    using self1 by (simp add: py_index_def)
  have fl: "map_of (files (self ?C1)) ''a1'' = Some [''c1'']"
    using self1 by simp
  have all: "\<forall>ch\<in>set [''c1'']. \<forall>ns.
      listdir (disk ?C1) (path_join (path_join (path (self ?C1)) ''a1'') ch) = Inr ns
        \<longrightarrow> (\<exists>d\<in>set ns. endswith d (''.'' @ ''wav''))"
    using self1 l1 has by (simp add: path_join_def)
  have g1: "snd (snd (get_data ex_env ''wav'' ?C1)) = []"
    using conversion_only_when_missing[where c = ?C1 and ev = ex_env and fmt = "''wav''"
        and author = "''a1''" and chs = "[''c1'']"] idx fl all
    by blast
  from l0 s0 la s1 g0 g1 show ?thesis by simp
qed

text \<open>
  C7, as the code has it. The transcript of a chapter is the first entry of the directory
  listing that ends with \<open>.txt\<close>. When there is none, indexing the empty list raises
  \<open>IndexError\<close>, and that ends the call of \<open>get_data\<close> at this chapter, with the state
  reached after the chapters before it. When there are several, nothing is raised: the
  first one is read and the chapter goes on to its audio step, whatever the other ones are.
\<close>

theorem transcript_is_first_txt:
  "(py_index (author_indexes (self c)) (index (self c) + 1) = Inr author
      \<and> map_of (files (self c)) author = Some (pre @ ch # post)
      \<and> chapters_loop ev fmt (path_join (path (self c)) author) pre ([], []) (advance c)
           = (Inr acc1, c1, l1)
      \<and> listdir (disk c1) (path_join (path_join (path (self c)) author) ch) = Inr names
      \<and> filter (\<lambda>f. endswith f ''.txt'') names = []
    \<longrightarrow> get_data ev fmt c = (Inl IndexError, c1, l1))
   \<and> (listdir (disk c) (path_join ap ch) = Inr names
      \<and> filter (\<lambda>f. endswith f ''.txt'') names = tf # others
      \<and> readlines (disk c) (path_join (path_join ap ch) tf) = Inr raw
    \<longrightarrow> process_chapter ev fmt ap ch acc c
          = (case chapter_audios ev fmt (path_join ap ch) (snd acc) c of
               (Inl e, c2, l) \<Rightarrow> (Inl e, c2, l)
             | (Inr audios, c2, l) \<Rightarrow>
                 (Inr (fold parse_line (map rstrip_nl raw) (fst acc), audios), c2, l)))"
  using get_data_no_transcript[of c author pre ch post ev fmt acc1 c1 l1 names]
        process_chapter_first_transcript[of c ap ch names tf others raw ev fmt acc]
  by blast

text \<open>
  A chapter without a transcript makes the call raise \<open>IndexError\<close>; a chapter with the
  transcripts \<open>t1.txt\<close> and \<open>t2.txt\<close> is processed with the lines of \<open>t1.txt\<close>.
\<close>

theorem transcript_is_first_txt_witness:
  "get_data ex_env ''wav'' \<lparr>self = ex_prep, disk = no_txt_disk\<rparr>
     = (Inl IndexError, advance \<lparr>self = ex_prep, disk = no_txt_disk\<rparr>, [])
   \<and> filter (\<lambda>f. endswith f ''.txt'') [''t1.txt'', ''t2.txt'', ''u1.wav''] = [''t1.txt'', ''t2.txt'']
   \<and> process_chapter ex_env ''wav'' ''r/a1'' ''c1'' ([], []) \<lparr>self = ex_prep, disk = two_txt_disk\<rparr>
     = (Inr ([(''u1'', '' cat'')], [(''u1'', (1, 16000))]),
        \<lparr>self = ex_prep, disk = two_txt_disk\<rparr>, [])"
proof -
  let ?C = "\<lparr>self = ex_prep, disk = no_txt_disk\<rparr>"
  let ?D = "\<lparr>self = ex_prep, disk = two_txt_disk\<rparr>"
  have a: "py_index (author_indexes (self ?C)) (index (self ?C) + 1) = Inr ''a1''"
    by (simp add: ex_prep_def py_index_def)
  have f: "map_of (files (self ?C)) ''a1'' = Some ([] @ ''c1'' # [])"
    by (simp add: ex_prep_def)
  have p: "chapters_loop ex_env ''wav'' (path_join (path (self ?C)) ''a1'') [] ([], []) (advance ?C)
             = (Inr ([], []), advance ?C, [])"
    by simp
  have n: "listdir (disk (advance ?C)) (path_join (path_join (path (self ?C)) ''a1'') ''c1'')
             = Inr [''u1.wav'']"
    by (simp add: advance_def ex_prep_def path_join_def no_txt_disk_def chapter_disk_def mk_disk_def)
  have z: "filter (\<lambda>f. endswith f ''.txt'') [''u1.wav''] = []"
    by (simp add: endswith_def)
  have one: "get_data ex_env ''wav'' ?C = (Inl IndexError, advance ?C, [])"
    using transcript_is_first_txt[where c = ?C and author = "''a1''" and pre = "[]"
        and ch = "''c1''" and post = "[]" and ev = ex_env and fmt = "''wav''"
        and ?acc1.0 = "([], [])" and ?c1.0 = "advance ?C" and ?l1.0 = "[]"
        and names = "[''u1.wav'']"] a f p n z
    by blast
  have n2: "listdir (disk ?D) (path_join ''r/a1'' ''c1'') = Inr [''t1.txt'', ''t2.txt'', ''u1.wav'']"
    by (simp add: path_join_def two_txt_disk_def chapter_disk_def mk_disk_def)
  have t2: "filter (\<lambda>f. endswith f ''.txt'') [''t1.txt'', ''t2.txt'', ''u1.wav'']
              = ''t1.txt'' # [''t2.txt'']"
    by (simp add: endswith_def)
  have r2: "readlines (disk ?D) (path_join (path_join ''r/a1'' ''c1'') ''t1.txt'') = Inr [''u1 cat'']"
    by (simp add: path_join_def two_txt_disk_def chapter_disk_def mk_disk_def)
  have au: "chapter_audios ex_env ''wav'' (path_join ''r/a1'' ''c1'') (snd ([], [])) ?D
              = (Inr [(''u1'', (1, 16000))], ?D, [])"
    by (simp add: run_defs two_txt_disk_def chapter_disk_def)
  have tr: "fold parse_line (map rstrip_nl [''u1 cat'']) (fst ([], [])) = [(''u1'', '' cat'')]"
    by (simp add: run_defs)
  have two: "process_chapter ex_env ''wav'' ''r/a1'' ''c1'' ([], []) ?D
     = (Inr ([(''u1'', '' cat'')], [(''u1'', (1, 16000))]), ?D, [])"
    using transcript_is_first_txt[where c = ?D and ap = "''r/a1''" and ch = "''c1''"
        and names = "[''t1.txt'', ''t2.txt'', ''u1.wav'']" and tf = "''t1.txt''"
        and others = "[''t2.txt'']" and raw = "[''u1 cat'']" and ev = ex_env
        and fmt = "''wav''" and acc = "([], [])"] n2 t2 r2 au tr
    by simp
  from one t2 two show ?thesis by simp
qed

text \<open>
  Against C7 as stated: with two transcript files in the chapter the call does not fail.
  It returns the batch made from the first one (\<open>t2.txt\<close> would give \<open>sil\<close>).
\<close>

theorem two_transcripts_no_error:
  "get_data ex_env ''wav'' \<lparr>self = ex_prep, disk = two_txt_disk\<rparr>
     = (Inr [(''u1'', [''K'', ''AE'', ''T''], 1101)], \<lparr>self = ex_prep, disk = two_txt_disk\<rparr>, [])"
  by (simp add: run_defs ex_prep_def two_txt_disk_def chapter_disk_def)

text \<open>
  C8, as the code has it. The constructor loads the dictionary and then lists the root
  directory. When the root cannot be listed (it does not exist), construction fails at
  once: with the error of the dictionary loader when that failed first, and otherwise
  with the error that \<open>listdir\<close> raised, an \<open>OSError\<close> of the operating system and not
  an error type of the module.
\<close>

theorem init_fails_without_root:
  "listdir d p = Inl e \<longrightarrow>
     (\<exists>e'. init ev d p pe fz fs nf nl nc cl dp pp = Inl e')
     \<and> (\<forall>pd. get_phoneme_dict ev dp pp = Inr pd
            \<longrightarrow> init ev d p pe fz fs nf nl nc cl dp pp = Inl e)"
proof
  assume l: "listdir d p = Inl e"
  show "(\<exists>e'. init ev d p pe fz fs nf nl nc cl dp pp = Inl e')
     \<and> (\<forall>pd. get_phoneme_dict ev dp pp = Inr pd
            \<longrightarrow> init ev d p pe fz fs nf nl nc cl dp pp = Inl e)"
    using init_no_listing[OF l, of ev pe fz fs nf nl nc cl dp pp]
    by (cases "get_phoneme_dict ev dp pp") auto
qed

text \<open>On \<open>ex_disk\<close> there is no directory \<open>nowhere\<close>: \<open>AudioPrep(''nowhere'')\<close> raises.\<close>

theorem init_fails_without_root_witness:
  "listdir ex_disk ''nowhere'' = Inl OSError \<and> ex_init ''nowhere'' ex_disk = Inl OSError"
proof -
  have l: "listdir ex_disk ''nowhere'' = Inl OSError"
    by (simp add: ex_disk_def mk_disk_def)
  have g: "get_phoneme_dict ex_env None None = Inr ex_dict"
    by (simp add: ex_env_def)
  have "init ex_env ex_disk ''nowhere'' None None None None None None None None None = Inl OSError"
    using init_fails_without_root[where d = ex_disk and p = "''nowhere''" and e = OSError
        and ev = ex_env and dp = None and pp = None] l g
    by blast
  with l show ?thesis by (simp add: ex_init_def)
qed

text \<open>
  Against C8 as stated: on a root directory that exists and has no subdirectory the
  constructor returns an instance, with no author and \<open>batch_count\<close> 0; and on a root that
  does not exist the error is the one of \<open>listdir\<close>.
\<close>

theorem init_accepts_empty_root:
  "ex_init ''r'' empty_root_disk
     = Inr (ex_prep\<lparr>files := [], author_indexes := [], batch_count := 0\<rparr>)
   \<and> ex_init ''nowhere'' empty_root_disk = Inl OSError"
  by (simp add: ex_init_def init_def ex_env_def get_files_def subdirs_def empty_root_disk_def
        mk_disk_def path_join_def ex_prep_def default_to_def)

text \<open>
  C1, as the code has it. A batch that \<open>get_data\<close> returns has exactly the keys of the
  decoded-phoneme map; each of them is a key of the scaled-feature map too, and its entry
  pairs the two values. An utterance with a word outside the dictionary is not in the
  batch. An utterance that was decoded and has no features is not left out: the lookup
  \<open>scaled_mfcc[key]\<close> raises \<open>KeyError\<close> and the call fails. Nothing makes the phoneme
  sequence of an entry non-empty.
\<close>

theorem batch_is_join:
  "(get_data ev fmt c = (Inr result, c', l) \<longrightarrow>
      (\<exists>transcripts audios c1 scaled.
         gather ev fmt c = (Inr (transcripts, audios), c1, l)
         \<and> scaled_features ev (self c1) audios = Inr scaled
         \<and> fst ` set result = fst ` set (get_phoneme_transcription (self c1) transcripts)
         \<and> fst ` set result \<subseteq> fst ` set scaled
         \<and> (\<forall>k\<in>fst ` set result. \<exists>ph m.
                map_of (get_phoneme_transcription (self c1) transcripts) k = Some ph
                \<and> map_of scaled k = Some m \<and> map_of result k = Some (ph, m))
         \<and> (\<forall>k text. map_of transcripts k = Some text
                \<and> (\<exists>w\<in>set (py_split text). w \<notin> dom (phon_dict (self c1)))
              \<longrightarrow> k \<notin> fst ` set result)))
   \<and> (gather ev fmt c = (Inr (transcripts, audios), c1, l)
        \<and> scaled_features ev (self c1) audios = Inr scaled
        \<and> (\<exists>k\<in>fst ` set (get_phoneme_transcription (self c1) transcripts). k \<notin> fst ` set scaled)
      \<longrightarrow> get_data ev fmt c = (Inl KeyError, c1, l))"
proof (intro conjI impI)
  assume ok: "get_data ev fmt c = (Inr result, c', l)"
  from get_data_success[OF ok] obtain ta c1 where
    g: "gather ev fmt c = (Inr ta, c1, l)"
    and pu: "pair_up ev (self c1) (fst ta) (snd ta) = Inr result"
    by blast
  let ?phon = "get_phoneme_transcription (self c1) (fst ta)"
  from pu obtain scaled where
    sc: "scaled_features ev (self c1) (snd ta) = Inr scaled"
    and j: "join_loop ?phon scaled [] = Inr result"
    by (auto simp: pair_up_def split: sum.splits)
  have m: "\<And>k. map_of result k =
     (case map_of ?phon k of
        None \<Rightarrow> None
      | Some ph \<Rightarrow> (case map_of scaled k of None \<Rightarrow> None | Some m \<Rightarrow> Some (ph, m)))"
    using join_loop_map[OF phon_distinct j] by (simp split: option.splits)
  have found: "\<forall>k\<in>fst ` set ?phon. map_of scaled k \<noteq> None"
    using join_loop_found[OF j] .
  have keys: "fst ` set result = fst ` set ?phon"
  proof (rule set_eqI)
    fix k
    have "(k \<in> fst ` set result) = (map_of result k \<noteq> None)"
      using map_of_None_keys[of result k] by simp
    also have "\<dots> = (map_of ?phon k \<noteq> None)"
    proof (cases "map_of ?phon k")
      case None
      then show ?thesis by (simp add: m)
    next
      case (Some ph)
      then have "k \<in> fst ` set ?phon"
        using map_of_None_keys[of ?phon k] by simp
      with found have "map_of scaled k \<noteq> None" by blast
      with Some show ?thesis by (auto simp: m)
    qed
    also have "\<dots> = (k \<in> fst ` set ?phon)"
      using map_of_None_keys[of ?phon k] by simp
    finally show "(k \<in> fst ` set result) = (k \<in> fst ` set ?phon)" .
  qed
  have sub: "fst ` set result \<subseteq> fst ` set scaled"
  proof
    fix k assume "k \<in> fst ` set result"
    with keys found have "map_of scaled k \<noteq> None" by blast
    then show "k \<in> fst ` set scaled"
      using map_of_None_keys[of scaled k] by simp
  qed
  have entries: "\<forall>k\<in>fst ` set result. \<exists>ph m.
      map_of ?phon k = Some ph \<and> map_of scaled k = Some m \<and> map_of result k = Some (ph, m)"
  proof
    fix k assume kin: "k \<in> fst ` set result"
    then have "map_of result k \<noteq> None"
      using map_of_None_keys[of result k] by simp
    then obtain ph m' where "map_of ?phon k = Some ph" "map_of scaled k = Some m'"
      by (auto simp: m split: option.splits)
    then show "\<exists>ph m. map_of ?phon k = Some ph \<and> map_of scaled k = Some m
                 \<and> map_of result k = Some (ph, m)"
      by (simp add: m)
  qed
  have oov: "\<forall>k text. map_of (fst ta) k = Some text
       \<and> (\<exists>w\<in>set (py_split text). w \<notin> dom (phon_dict (self c1)))
     \<longrightarrow> k \<notin> fst ` set result"
  proof (intro allI impI)
    fix k tx
    assume h: "map_of (fst ta) k = Some tx
       \<and> (\<exists>w\<in>set (py_split tx). w \<notin> dom (phon_dict (self c1)))"
    have "map_of ?phon k = None"
      using fold_decode_map[OF gather_distinct[OF g], of "self c1" "[]" k] h
      by (auto simp: get_phoneme_transcription_def)
    then show "k \<notin> fst ` set result"
      using keys map_of_None_keys[of ?phon k] by simp
  qed
  from g sc keys sub entries oov
  show "\<exists>transcripts audios c1 scaled.
         gather ev fmt c = (Inr (transcripts, audios), c1, l)
         \<and> scaled_features ev (self c1) audios = Inr scaled
         \<and> fst ` set result = fst ` set (get_phoneme_transcription (self c1) transcripts)
         \<and> fst ` set result \<subseteq> fst ` set scaled
         \<and> (\<forall>k\<in>fst ` set result. \<exists>ph m.
                map_of (get_phoneme_transcription (self c1) transcripts) k = Some ph
                \<and> map_of scaled k = Some m \<and> map_of result k = Some (ph, m))
         \<and> (\<forall>k text. map_of transcripts k = Some text
                \<and> (\<exists>w\<in>set (py_split text). w \<notin> dom (phon_dict (self c1)))
              \<longrightarrow> k \<notin> fst ` set result)"
    by (intro exI[of _ "fst ta"] exI[of _ "snd ta"] exI[of _ c1] exI[of _ scaled]) simp
next
  assume h: "gather ev fmt c = (Inr (transcripts, audios), c1, l)
        \<and> scaled_features ev (self c1) audios = Inr scaled
        \<and> (\<exists>k\<in>fst ` set (get_phoneme_transcription (self c1) transcripts). k \<notin> fst ` set scaled)"
  then have "\<exists>k\<in>fst ` set (get_phoneme_transcription (self c1) transcripts). map_of scaled k = None"
    using map_of_None_keys[of scaled] by blast
  from join_loop_missing[OF this, of "[]"] h
  show "get_data ev fmt c = (Inl KeyError, c1, l)"
    by (simp add: get_data_def pair_up_def)
qed

text \<open>
  The second author of the corpus of three has the lines \<open>u2 cat a\<close> and \<open>x2 the cat\<close>
  and the audio \<open>u2.wav\<close>: the batch has the key \<open>u2\<close> only. In \<open>orphan_disk\<close> the line
  \<open>u2 cat\<close> has no audio: the call raises \<open>KeyError\<close>.
\<close>

theorem batch_is_join_witness:
  "get_data ex_env ''wav'' \<lparr>self = ex_prep3\<lparr>index := 0\<rparr>, disk = ex_disk\<rparr>
     = (Inr [(''u2'', [''K'', ''AE'', ''T'', ''sil''], 1102)],
        \<lparr>self = ex_prep3\<lparr>index := 1\<rparr>, disk = ex_disk\<rparr>, [])
   \<and> (\<exists>transcripts audios c1 scaled.
         gather ex_env ''wav'' \<lparr>self = ex_prep3\<lparr>index := 0\<rparr>, disk = ex_disk\<rparr>
           = (Inr (transcripts, audios), c1, [])
         \<and> scaled_features ex_env (self c1) audios = Inr scaled
         \<and> fst ` set [(''u2'', [''K'', ''AE'', ''T'', ''sil''], 1102 :: nat)]
             = fst ` set (get_phoneme_transcription (self c1) transcripts)
         \<and> fst ` set [(''u2'', [''K'', ''AE'', ''T'', ''sil''], 1102 :: nat)] \<subseteq> fst ` set scaled
         \<and> (\<forall>k\<in>fst ` set [(''u2'', [''K'', ''AE'', ''T'', ''sil''], 1102 :: nat)]. \<exists>ph m.
                map_of (get_phoneme_transcription (self c1) transcripts) k = Some ph
                \<and> map_of scaled k = Some m
                \<and> map_of [(''u2'', [''K'', ''AE'', ''T'', ''sil''], 1102 :: nat)] k = Some (ph, m))
         \<and> (\<forall>k text. map_of transcripts k = Some text
                \<and> (\<exists>w\<in>set (py_split text). w \<notin> dom (phon_dict (self c1)))
              \<longrightarrow> k \<notin> fst ` set [(''u2'', [''K'', ''AE'', ''T'', ''sil''], 1102 :: nat)]))
   \<and> gather ex_env ''wav'' \<lparr>self = ex_prep, disk = orphan_disk\<rparr>
       = (Inr ([(''u1'', '' cat''), (''u2'', '' cat'')], [(''u1'', (1, 16000))]),
          \<lparr>self = ex_prep\<lparr>index := 0\<rparr>, disk = orphan_disk\<rparr>, [])
   \<and> scaled_features ex_env (ex_prep\<lparr>index := 0\<rparr>) [(''u1'', (1, 16000))] = Inr [(''u1'', 1101)]
   \<and> get_phoneme_transcription (ex_prep\<lparr>index := 0\<rparr>) [(''u1'', '' cat''), (''u2'', '' cat'')]
       = [(''u1'', [''K'', ''AE'', ''T'']), (''u2'', [''K'', ''AE'', ''T''])]
   \<and> get_data ex_env ''wav'' \<lparr>self = ex_prep, disk = orphan_disk\<rparr>
       = (Inl KeyError, \<lparr>self = ex_prep\<lparr>index := 0\<rparr>, disk = orphan_disk\<rparr>, [])"
proof -
  let ?C = "\<lparr>self = ex_prep3\<lparr>index := 0\<rparr>, disk = ex_disk\<rparr>"
  let ?A = "\<lparr>self = ex_prep, disk = orphan_disk\<rparr>"
  let ?A1 = "\<lparr>self = ex_prep\<lparr>index := 0\<rparr>, disk = orphan_disk\<rparr>"
  have run: "get_data ex_env ''wav'' ?C
               = (Inr [(''u2'', [''K'', ''AE'', ''T'', ''sil''], 1102)],
                  \<lparr>self = ex_prep3\<lparr>index := 1\<rparr>, disk = ex_disk\<rparr>, [])"
    by (simp add: run_defs ex_prep3_def ex_prep_def ex_disk_def)
  have ex: "(\<exists>transcripts audios c1 scaled.
           gather ex_env ''wav'' \<lparr>self = ex_prep3\<lparr>index := 0\<rparr>, disk = ex_disk\<rparr>
             = (Inr (transcripts, audios), c1, [])
           \<and> scaled_features ex_env (self c1) audios = Inr scaled
           \<and> fst ` set [(''u2'', [''K'', ''AE'', ''T'', ''sil''], 1102 :: nat)]
               = fst ` set (get_phoneme_transcription (self c1) transcripts)
           \<and> fst ` set [(''u2'', [''K'', ''AE'', ''T'', ''sil''], 1102 :: nat)] \<subseteq> fst ` set scaled
           \<and> (\<forall>k\<in>fst ` set [(''u2'', [''K'', ''AE'', ''T'', ''sil''], 1102 :: nat)]. \<exists>ph m.
                  map_of (get_phoneme_transcription (self c1) transcripts) k = Some ph
                  \<and> map_of scaled k = Some m
                  \<and> map_of [(''u2'', [''K'', ''AE'', ''T'', ''sil''], 1102 :: nat)] k = Some (ph, m))
           \<and> (\<forall>k text. map_of transcripts k = Some text
                  \<and> (\<exists>w\<in>set (py_split text). w \<notin> dom (phon_dict (self c1)))
                \<longrightarrow> k \<notin> fst ` set [(''u2'', [''K'', ''AE'', ''T'', ''sil''], 1102 :: nat)]))"
    by (rule mp[OF conjunct1[OF batch_is_join[where ev = ex_env and fmt = "''wav''" and c = ?C
        and result = "[(''u2'', [''K'', ''AE'', ''T'', ''sil''], 1102)]"
        and c' = "\<lparr>self = ex_prep3\<lparr>index := 1\<rparr>, disk = ex_disk\<rparr>" and l = "[]"]] run])
  have g: "gather ex_env ''wav'' ?A
       = (Inr ([(''u1'', '' cat''), (''u2'', '' cat'')], [(''u1'', (1, 16000))]), ?A1, [])"
    by (simp add: run_defs ex_prep_def orphan_disk_def chapter_disk_def)
  have sc: "scaled_features ex_env (self ?A1) [(''u1'', (1, 16000))] = Inr [(''u1'', 1101)]"
    by (simp add: run_defs)
  have ph: "get_phoneme_transcription (self ?A1) [(''u1'', '' cat''), (''u2'', '' cat'')]
       = [(''u1'', [''K'', ''AE'', ''T'']), (''u2'', [''K'', ''AE'', ''T''])]"
    by (simp add: run_defs ex_prep_def)
  have miss: "\<exists>k\<in>fst ` set (get_phoneme_transcription (self ?A1)
                 [(''u1'', '' cat''), (''u2'', '' cat'')]). k \<notin> fst ` set [(''u1'', 1101 :: nat)]"
    unfolding ph by simp
  have hyp: "gather ex_env ''wav'' ?A
       = (Inr ([(''u1'', '' cat''), (''u2'', '' cat'')], [(''u1'', (1, 16000))]), ?A1, [])
     \<and> scaled_features ex_env (self ?A1) [(''u1'', (1, 16000))] = Inr [(''u1'', 1101)]
     \<and> (\<exists>k\<in>fst ` set (get_phoneme_transcription (self ?A1)
                 [(''u1'', '' cat''), (''u2'', '' cat'')]). k \<notin> fst ` set [(''u1'', 1101 :: nat)])"
    using g sc miss by (intro conjI)
  have ke: "get_data ex_env ''wav'' ?A = (Inl KeyError, ?A1, [])"
    by (rule mp[OF conjunct2[OF batch_is_join[where ev = ex_env and fmt = "''wav''" and c = ?A
        and transcripts = "[(''u1'', '' cat''), (''u2'', '' cat'')]"
        and audios = "[(''u1'', (1, 16000))]" and ?c1.0 = ?A1 and l = "[]"
        and scaled = "[(''u1'', 1101)]"]] hyp])
  have sc': "scaled_features ex_env (ex_prep\<lparr>index := 0\<rparr>) [(''u1'', (1, 16000))]
               = Inr [(''u1'', 1101)]"
    using sc by simp
  have ph': "get_phoneme_transcription (ex_prep\<lparr>index := 0\<rparr>) [(''u1'', '' cat''), (''u2'', '' cat'')]
       = [(''u1'', [''K'', ''AE'', ''T'']), (''u2'', [''K'', ''AE'', ''T''])]"
    using ph by simp
  show ?thesis
    by (intro conjI run ex g sc' ph' ke)
qed

text \<open>
  Against C1 as stated: a returned entry with an empty phoneme sequence (the only word of
  \<open>u1\<close> has the end marker as its only phoneme), and a call that raises for an utterance
  that has a phoneme transcription and no features.
\<close>

theorem empty_phonemes_and_key_error:
  "get_data ex_env ''wav'' \<lparr>self = ex_prep, disk = silent_disk\<rparr>
     = (Inr [(''u1'', [], 1101)], \<lparr>self = ex_prep, disk = silent_disk\<rparr>, [])
   \<and> get_data ex_env ''wav'' \<lparr>self = ex_prep, disk = orphan_disk\<rparr>
     = (Inl KeyError, \<lparr>self = ex_prep\<lparr>index := 0\<rparr>, disk = orphan_disk\<rparr>, [])"
  by (simp add: run_defs ex_prep_def silent_disk_def orphan_disk_def chapter_disk_def)

text \<open>
  C2 does not hold of the code. \<open>_get_mfcc\<close> calls the feature library with the samples
  and the sample rate only, and no other method reads the seven parameters that the
  constructor stores: the features, and the whole batch that \<open>get_data\<close> returns, are the
  same whatever these parameters are. The shape of the feature matrix is therefore the
  one of the library's own defaults, not \<open>num_ceps\<close> columns.
\<close>

theorem mfcc_parameters_unused:
  "get_mfcc ev (reconfigure q s) audios = get_mfcc ev s audios
   \<and> scaled_features ev (reconfigure q s) audios = scaled_features ev s audios
   \<and> fst (get_data ev fmt (reparam q c)) = fst (get_data ev fmt c)"
  by (simp add: get_mfcc_def scaled_features_reconfigure get_data_reparam split: prod.splits)

text \<open>
  An instance made with \<open>num_ceps = 5\<close> (and 20 filters) returns the batch of the instance
  made with the defaults.
\<close>

theorem mfcc_parameters_unused_witness:
  "num_ceps (reconfigure (PRE_EMPHASIS, FRAME_SIZE, FRAME_STRIDE, nfft, 20, 5, CEP_LIFTER) ex_prep3) = 5
   \<and> fst (get_data ex_env ''wav''
           (reparam (PRE_EMPHASIS, FRAME_SIZE, FRAME_STRIDE, nfft, 20, 5, CEP_LIFTER)
              \<lparr>self = ex_prep3, disk = ex_disk\<rparr>))
       = Inr [(''u1'', [''K'', ''AE'', ''T''], 1101)]"
proof -
  have r1: "get_data ex_env ''wav'' \<lparr>self = ex_prep3, disk = ex_disk\<rparr>
       = (Inr [(''u1'', [''K'', ''AE'', ''T''], 1101)],
          \<lparr>self = ex_prep3\<lparr>index := 0\<rparr>, disk = ex_disk\<rparr>, [])"
    by (simp add: run_defs ex_prep3_def ex_prep_def ex_disk_def)
  have n: "num_ceps (reconfigure (PRE_EMPHASIS, FRAME_SIZE, FRAME_STRIDE, nfft, 20, 5, CEP_LIFTER)
             ex_prep3) = 5"
    by (simp add: reconfigure_def)
  show ?thesis
    using n r1
      mfcc_parameters_unused[where ev = ex_env and fmt = "''wav''"
        and q = "(PRE_EMPHASIS, FRAME_SIZE, FRAME_STRIDE, nfft, 20, 5, CEP_LIFTER)"
        and c = "\<lparr>self = ex_prep3, disk = ex_disk\<rparr>"]
    by simp
qed




text \<open>
  C6, with the scaler of the library in exact arithmetic. A row (frame) with at least two
  distinct values is scaled on its own, from its own least and greatest value, by
  \<open>-1 + 2 * (x - min) / (max - min)\<close>: the entries that hold the minimum become \<open>-1\<close>, the
  entries that hold the maximum become \<open>1\<close>, both values occur, and every entry of the
  scaled row lies between \<open>-1\<close> and \<open>1\<close>.
\<close>

theorem rows_scaled_into_unit_range:
  assumes "minmax_scale ev = sk_minmax_scale"
  shows "scale_data ev s keys mfccs = Inr scaled \<and> length keys = length mfccs \<and> distinct keys
           \<and> i < length keys \<and> j < length (mfccs ! i)
           \<and> x \<in> set (mfccs ! i ! j) \<and> y \<in> set (mfccs ! i ! j) \<and> x \<noteq> y
         \<longrightarrow> (\<exists>m. map_of scaled (keys ! i) = Some m \<and> length m = length (mfccs ! i)
                 \<and> m ! j = map (\<lambda>v. - 1 + 2 * (v - Min (set (mfccs ! i ! j)))
                                        / (Max (set (mfccs ! i ! j)) - Min (set (mfccs ! i ! j))))
                              (mfccs ! i ! j)
                 \<and> (\<forall>k<length (mfccs ! i ! j).
                       (mfccs ! i ! j ! k = Min (set (mfccs ! i ! j)) \<longrightarrow> m ! j ! k = - 1)
                       \<and> (mfccs ! i ! j ! k = Max (set (mfccs ! i ! j)) \<longrightarrow> m ! j ! k = 1))
                 \<and> - 1 \<in> set (m ! j) \<and> 1 \<in> set (m ! j)
                 \<and> (\<forall>v\<in>set (m ! j). - 1 \<le> v \<and> v \<le> 1))"
proof
  assume h: "scale_data ev s keys mfccs = Inr scaled \<and> length keys = length mfccs \<and> distinct keys
           \<and> i < length keys \<and> j < length (mfccs ! i)
           \<and> x \<in> set (mfccs ! i ! j) \<and> y \<in> set (mfccs ! i ! j) \<and> x \<noteq> y"
  let ?row = "mfccs ! i ! j"
  let ?m = "map scale_row (mfccs ! i)"
  have m: "map_of scaled (keys ! i) = Some ?m"
    using h scale_data_sk[OF assms, of s keys mfccs scaled i] by simp
  have xy: "x \<in> set ?row" "y \<in> set ?row" "x \<noteq> y"
    using h by simp_all
  have r: "?m ! j = scale_row ?row"
    using h by simp
  have f: "?m ! j = map (\<lambda>v. - 1 + 2 * (v - Min (set ?row)) / (Max (set ?row) - Min (set ?row))) ?row"
    using scale_row_formula[OF xy] r by simp
  have g: "(\<forall>k<length ?row. (?row ! k = Min (set ?row) \<longrightarrow> ?m ! j ! k = - 1)
                       \<and> (?row ! k = Max (set ?row) \<longrightarrow> ?m ! j ! k = 1))
         \<and> - 1 \<in> set (?m ! j) \<and> 1 \<in> set (?m ! j)
         \<and> (\<forall>v\<in>set (?m ! j). - 1 \<le> v \<and> v \<le> 1)"
    using scale_row_range[OF xy] unfolding r .
  have l: "length ?m = length (mfccs ! i)" by simp
  show "\<exists>m. map_of scaled (keys ! i) = Some m \<and> length m = length (mfccs ! i)
                 \<and> m ! j = map (\<lambda>v. - 1 + 2 * (v - Min (set (mfccs ! i ! j)))
                                        / (Max (set (mfccs ! i ! j)) - Min (set (mfccs ! i ! j))))
                              (mfccs ! i ! j)
                 \<and> (\<forall>k<length (mfccs ! i ! j).
                       (mfccs ! i ! j ! k = Min (set (mfccs ! i ! j)) \<longrightarrow> m ! j ! k = - 1)
                       \<and> (mfccs ! i ! j ! k = Max (set (mfccs ! i ! j)) \<longrightarrow> m ! j ! k = 1))
                 \<and> - 1 \<in> set (m ! j) \<and> 1 \<in> set (m ! j)
                 \<and> (\<forall>v\<in>set (m ! j). - 1 \<le> v \<and> v \<le> 1)"
    using m l f g by (intro exI[of _ ?m]) blast
qed

text \<open>The row \<open>1 2 3\<close> of the matrix with the rows \<open>5 5 5\<close> and \<open>1 2 3\<close> becomes \<open>-1 0 1\<close>.\<close>

theorem rows_scaled_into_unit_range_witness:
  "minmax_scale sk_env = sk_minmax_scale
   \<and> scale_data sk_env ex_prep [''u1''] [[[5, 5, 5], [1, 2, 3]]]
       = Inr [(''u1'', [[- 1, - 1, - 1], [- 1, 0, 1]])]
   \<and> (1 :: real) \<in> set ([[[5, 5, 5], [1, 2, 3]]] ! 0 ! 1)
   \<and> (3 :: real) \<in> set ([[[5, 5, 5], [1, 2, 3]]] ! 0 ! 1)
   \<and> (\<exists>m. map_of [(''u1'', [[- 1, - 1, - 1], [- 1, 0, 1 :: real]])] ''u1'' = Some m
          \<and> m ! 1 = [- 1, 0, 1] \<and> - 1 \<in> set (m ! 1) \<and> 1 \<in> set (m ! 1))"
proof -
  have sk: "minmax_scale sk_env = sk_minmax_scale"
    by (simp add: sk_env_def)
  have run: "scale_data sk_env ex_prep [''u1''] [[[5, 5, 5], [1, 2, 3]]]
       = Inr [(''u1'', [[- 1, - 1, - 1], [- 1, 0, 1]])]"
    by (simp add: scale_data_def sk_env_def sk_minmax_scale_def scale_row_def
          handle_zeros_in_scale_def Let_def)
  have hyp: "scale_data sk_env ex_prep [''u1''] [[[5, 5, 5], [1, 2, 3]]]
         = Inr [(''u1'', [[- 1, - 1, - 1], [- 1, 0, 1]])]
       \<and> length [''u1''] = length [[[5, 5, 5], [1, 2, 3 :: real]]] \<and> distinct [''u1'']
       \<and> 0 < length [''u1''] \<and> 1 < length ([[[5, 5, 5], [1, 2, 3 :: real]]] ! 0)
       \<and> (1 :: real) \<in> set ([[[5, 5, 5], [1, 2, 3]]] ! 0 ! 1)
       \<and> (3 :: real) \<in> set ([[[5, 5, 5], [1, 2, 3]]] ! 0 ! 1) \<and> (1 :: real) \<noteq> 3"
    using run by simp
  note t = rows_scaled_into_unit_range[OF sk, where s = ex_prep and keys = "[''u1'']"
      and mfccs = "[[[5, 5, 5], [1, 2, 3]]]" and i = 0 and j = 1 and x = 1 and y = 3
      and scaled = "[(''u1'', [[- 1, - 1, - 1], [- 1, 0, 1]])]"]
  from mp[OF t hyp] obtain m where
    m: "map_of [(''u1'', [[- 1, - 1, - 1], [- 1, 0, 1 :: real]])] ([''u1''] ! 0) = Some m"
    and lo: "- 1 \<in> set (m ! 1)" and hi: "1 \<in> set (m ! 1)"
    by blast
  from m have mv: "m = [[- 1, - 1, - 1], [- 1, 0, 1]]" by simp
  have e: "\<exists>m. map_of [(''u1'', [[- 1, - 1, - 1], [- 1, 0, 1 :: real]])] ''u1'' = Some m
          \<and> m ! 1 = [- 1, 0, 1] \<and> - 1 \<in> set (m ! 1) \<and> 1 \<in> set (m ! 1)"
    using m lo hi mv by (intro exI[of _ m]) simp
  have in1: "(1 :: real) \<in> set ([[[5, 5, 5], [1, 2, 3]]] ! 0 ! 1)"
    and in3: "(3 :: real) \<in> set ([[[5, 5, 5], [1, 2, 3]]] ! 0 ! 1)"
    by simp_all
  show ?thesis
    by (intro conjI sk run in1 in3 e)
qed

end
